theory Spec2Isabelle
  imports Main
begin

section \<open>JavaScript strings\<close>

text \<open>
  Strings are character lists. The helpers below are the string methods that
  \<^verbatim>\<open>index.js\<close> calls: \<^verbatim>\<open>trim\<close>, \<^verbatim>\<open>split('\n')\<close>,
  \<^verbatim>\<open>includes\<close>, \<^verbatim>\<open>indexOf\<close>, \<^verbatim>\<open>substr\<close> and the conversion of a
  number to its decimal text.
\<close>

definition isSpace :: "char \<Rightarrow> bool" where
  \<comment> \<open>the white space and line terminators \<^verbatim>\<open>String.prototype.trim\<close> strips,
      among the characters below 256\<close>
  "isSpace c = (c \<in> set [CHR 0x09, CHR 0x0A, CHR 0x0B, CHR 0x0C, CHR 0x0D, CHR 0x20, CHR 0xA0])"

definition trim :: "string \<Rightarrow> string" where
  "trim s = rev (dropWhile isSpace (rev (dropWhile isSpace s)))"

fun splitLines :: "string \<Rightarrow> string list" where
  \<comment> \<open>\<^verbatim>\<open>s.split('\n')\<close>: never empty, one more piece than there are line feeds\<close>
  "splitLines [] = [[]]"
| "splitLines (c # cs) =
     (if c = CHR 0x0A then [] # splitLines cs
      else (case splitLines cs of
              [] \<Rightarrow> [[c]]
            | x # xs \<Rightarrow> (c # x) # xs))"

fun includesStr :: "string \<Rightarrow> string \<Rightarrow> bool" where
  \<comment> \<open>\<^verbatim>\<open>s.includes(sub)\<close>\<close>
  "includesStr [] sub = (sub = [])"
| "includesStr (c # cs) sub = (take (length sub) (c # cs) = sub \<or> includesStr cs sub)"

fun indexOfFrom :: "string \<Rightarrow> string \<Rightarrow> int \<Rightarrow> int" where
  "indexOfFrom [] sub i = (if sub = [] then i else - 1)"
| "indexOfFrom (c # cs) sub i =
     (if take (length sub) (c # cs) = sub then i else indexOfFrom cs sub (i + 1))"

definition indexOf :: "string \<Rightarrow> string \<Rightarrow> int" where
  \<comment> \<open>\<^verbatim>\<open>s.indexOf(sub)\<close>: the first position of \<open>sub\<close>, or \<open>-1\<close>\<close>
  "indexOf s sub = indexOfFrom s sub 0"

definition substrFrom :: "string \<Rightarrow> int \<Rightarrow> string" where
  \<comment> \<open>\<^verbatim>\<open>s.substr(start)\<close>: a negative start counts from the end\<close>
  "substrFrom s start =
     (if start < 0 then drop (nat (max 0 (int (length s) + start))) s
      else drop (nat start) s)"

definition digitChar :: "nat \<Rightarrow> char" where
  "digitChar d = ''0123456789'' ! d"

fun natToString :: "nat \<Rightarrow> string" where
  "natToString n =
     (if n < 10 then [digitChar n] else natToString (n div 10) @ [digitChar (n mod 10)])"

declare natToString.simps [simp del]

definition numToString :: "int \<Rightarrow> string" where
  \<comment> \<open>\<^verbatim>\<open>'' + n\<close> for an integer \<open>n\<close>\<close>
  "numToString i = (if i < 0 then CHR ''-'' # natToString (nat (- i)) else natToString (nat i))"

section \<open>Source-map marker detection\<close>

definition sourceMapComment :: string where
  "sourceMapComment = ''//# sourceMappingURL=''"

text \<open>
  \<^verbatim>\<open>linesContainSourceMap\<close>: the loop \<^verbatim>\<open>while(l--)\<close> walks the indices
  \<open>l - 1, ..., 0\<close>. A line that is blank, or that does not start with the marker,
  lets the loop go on to the line before it. Falling out of the loop returns
  \<^verbatim>\<open>undefined\<close>, which is \<open>None\<close> here.
\<close>

fun scanLines :: "string list \<Rightarrow> nat \<Rightarrow> string option" where
  "scanLines lines 0 = None"
| "scanLines lines (Suc l) =
     (let line = trim (lines ! l) in
      if line \<noteq> [] then
        (if take (length sourceMapComment) line = sourceMapComment
         then Some (drop (length sourceMapComment) line)
         else scanLines lines l)
      else scanLines lines l)"

definition linesContainSourceMap :: "string list \<Rightarrow> string option" where
  "linesContainSourceMap lines = scanLines lines (length lines)"

definition carriesMarker :: "string \<Rightarrow> bool" where
  \<comment> \<open>the trimmed line begins with the marker literal\<close>
  "carriesMarker ln = (take (length sourceMapComment) (trim ln) = sourceMapComment)"

definition markerValue :: "string \<Rightarrow> string" where
  "markerValue ln = drop (length sourceMapComment) (trim ln)"

section \<open>Data model\<close>

text \<open>
  Every \<^verbatim>\<open>TypeError\<close> and library throw that the modelled functions can raise is
  a constructor of \<open>error\<close>; a function that can raise returns \<open>error + state\<close>.
\<close>

datatype error =
    UndefinedFrame
  | NullFileName
  | ReduceOfEmptyArray
  | LibraryError

text \<open>
  \<open>UndefinedFrame\<close>: \<^verbatim>\<open>parsedStack[i].getFileName()\<close> with \<^verbatim>\<open>parsedStack[i]\<close>
  undefined. \<open>NullFileName\<close>: \<^verbatim>\<open>fileName.includes(...)\<close> with a \<^verbatim>\<open>null\<close> file
  name. \<open>ReduceOfEmptyArray\<close>: \<^verbatim>\<open>reduce\<close> without an initial value on an empty
  array. \<open>LibraryError\<close>: a throw of \<^verbatim>\<open>dataUriToBuffer\<close> or of the
  \<^verbatim>\<open>SourceMapConsumer\<close> constructor in \<^verbatim>\<open>parseInlineSourceMap\<close>, which has no
  \<^verbatim>\<open>try\<close>.
\<close>

record frame =
  getFileName :: "string option"
  getLineNumber :: "nat option"
  getColumnNumber :: "nat option"

record position =
  pos_line :: nat
  pos_column :: "nat option"

record original_position =
  source :: "string option"
  orig_line :: nat
  orig_column :: "nat option"

datatype 'v jsval = JString string | JOther 'v

type_synonym shape = "string option \<times> string option \<times> string option"

record 'v error_object =
  message :: string
  stack :: string
  actual :: "'v jsval"
  expected :: "'v jsval"

record 'v test =
  titlePath :: "string list"
  err :: "'v error_object"
  timedOut :: bool

record options =
  showSourceMapFiles :: bool
  showJavascriptFiles :: bool
  showFailsInBackOrder :: bool
  hideNodeModulesStack :: bool
  hideTestingLibraryDOM :: bool
  stackExclude :: "string option"

datatype event = ReadFile string | NewConsumer string

text \<open>
  The collaborators of \<^verbatim>\<open>index.js\<close> that are not part of it are the fields of
  \<open>env\<close>: the file system (\<open>None\<close> when \<^verbatim>\<open>fs.readFileSync\<close> throws),
  \<^verbatim>\<open>path.resolve(path.dirname(filePath), sm)\<close>, \<^verbatim>\<open>dataUriToBuffer\<close> and the
  \<^verbatim>\<open>SourceMapConsumer\<close> constructor (\<open>None\<close> when they throw) with its two
  queries, \<^verbatim>\<open>./color\<close> (its text argument can be \<^verbatim>\<open>undefined\<close>),
  \<^verbatim>\<open>util.format\<close> on the argument list of \<^verbatim>\<open>writeLine\<close> (numbers are passed
  as their decimal text), \<^verbatim>\<open>config.indentation\<close>, \<^verbatim>\<open>minimatch\<close>,
  \<^verbatim>\<open>diff.createPatch('str', actual, expected)\<close>, \<^verbatim>\<open>should-type\<close>,
  \<^verbatim>\<open>should-format\<close> with the options of \<^verbatim>\<open>stringify\<close>, and
  \<^verbatim>\<open>stacktrace.parse\<close>.
\<close>

record ('c, 'v) env =
  readFileSync :: "string \<Rightarrow> string option"
  pathResolve :: "string \<Rightarrow> string \<Rightarrow> string"
  dataUriToBuffer :: "string \<Rightarrow> string option"
  newConsumer :: "string \<Rightarrow> 'c option"
  originalPositionFor :: "'c \<Rightarrow> position \<Rightarrow> original_position"
  sourceContentFor :: "'c \<Rightarrow> string \<Rightarrow> string option"
  color :: "string \<Rightarrow> string option \<Rightarrow> string"
  format :: "string list \<Rightarrow> string"
  configIndentation :: nat
  minimatch :: "string \<Rightarrow> string \<Rightarrow> bool"
  createPatch :: "string \<Rightarrow> string \<Rightarrow> string"
  getType :: "'v jsval \<Rightarrow> shape"
  shouldFormat :: "'v jsval \<Rightarrow> string"
  parse :: "string \<Rightarrow> frame list"

text \<open>
  The reporter's mutable fields, the lines written to \<^verbatim>\<open>config.stream\<close>, and the
  trace of file reads and consumer constructions. In \<open>sourceMapCache\<close> the value
  \<open>None\<close> of a key is \<^verbatim>\<open>undefined\<close>, \<open>Some None\<close> is \<^verbatim>\<open>null\<close>. Both caches
  are keyed by file paths, which are taken not to name a property of
  \<^verbatim>\<open>Object.prototype\<close>. During the failure report \<^verbatim>\<open>indentation\<close> is a
  natural number: the \<^verbatim>\<open>end\<close> handler sets it to 0 before \<^verbatim>\<open>writeFailures\<close>.
\<close>

record 'c state =
  indentation :: nat
  filesCache :: "string \<rightharpoonup> string list"
  sourceMapCache :: "string \<rightharpoonup> 'c option"
  out :: "string list"
  io :: "event list"

definition truthy :: "string option \<Rightarrow> bool" where
  \<comment> \<open>a string or \<^verbatim>\<open>undefined\<close>/\<^verbatim>\<open>null\<close> in a condition\<close>
  "truthy v = (case v of None \<Rightarrow> False | Some s \<Rightarrow> s \<noteq> [])"

definition truthyNum :: "nat option \<Rightarrow> bool" where
  \<comment> \<open>a number or \<^verbatim>\<open>undefined\<close>/\<^verbatim>\<open>null\<close> in a condition\<close>
  "truthyNum v = (case v of None \<Rightarrow> False | Some n \<Rightarrow> n \<noteq> 0)"

definition nthOpt :: "'a list \<Rightarrow> int \<Rightarrow> 'a option" where
  \<comment> \<open>\<^verbatim>\<open>xs[k]\<close>: \<^verbatim>\<open>undefined\<close> outside the array\<close>
  "nthOpt xs k = (if 0 \<le> k \<and> nat k < length xs then Some (xs ! nat k) else None)"

fun joinWith :: "string \<Rightarrow> string list \<Rightarrow> string" where
  "joinWith sep [] = []"
| "joinWith sep [x] = x"
| "joinWith sep (x # y # ys) = x @ sep @ joinWith sep (y # ys)"

section \<open>Writing lines\<close>

definition indent :: "('c, 'v) env \<Rightarrow> nat \<Rightarrow> string" where
  \<comment> \<open>\<^verbatim>\<open>new Array(n).join(' ')\<close> is \<open>n - 1\<close> spaces, none for \<open>n = 0\<close>\<close>
  "indent env k = replicate (k * configIndentation env - 1) (CHR '' '')"

definition writeLine :: "('c, 'v) env \<Rightarrow> 'c state \<Rightarrow> string list \<Rightarrow> 'c state" where
  "writeLine env st args = st\<lparr>out := out st @ [indent env (indentation st) @ format env args]\<rparr>"

definition pad :: "string \<Rightarrow> nat \<Rightarrow> string" where
  \<comment> \<open>Modelled from the spec: \<^verbatim>\<open>./pad\<close> is not among the source files; the spec has
      the line number right-aligned and padded to the given width.\<close>
  "pad s n = replicate (n - length s) (CHR '' '') @ s"

section \<open>The snippet renderer\<close>

definition charAt :: "string \<Rightarrow> nat \<Rightarrow> string option" where
  \<comment> \<open>\<^verbatim>\<open>line[i]\<close>\<close>
  "charAt s i = (if i < length s then Some [s ! i] else None)"

definition markColumn :: "('c, 'v) env \<Rightarrow> string \<Rightarrow> nat \<Rightarrow> string" where
  \<comment> \<open>\<^verbatim>\<open>lineBefore + color('error line pos', line[column - 1]) + lineAfter\<close>\<close>
  "markColumn env s c = take (c - 1) s @ color env ''error line pos'' (charAt s (c - 1)) @ drop c s"

definition writeRow ::
  "('c, 'v) env \<Rightarrow> (int \<Rightarrow> string option) \<Rightarrow> position \<Rightarrow> nat \<Rightarrow> 'c state \<Rightarrow> int \<Rightarrow> 'c state" where
  \<comment> \<open>the callback of \<^verbatim>\<open>linenums.forEach\<close> in \<^verbatim>\<open>writeFilePosition\<close>\<close>
  "writeRow env lns filePos longestLength st ln =
     (case lns ln of
        None \<Rightarrow> st
      | Some l \<Rightarrow>
          if l = [] then st
          else if ln + 1 = int (pos_line filePos) then
            writeLine env st
              [''%s | %s'',
               color env ''error line pos'' (Some (pad (numToString (ln + 1)) longestLength)),
               (if truthyNum (pos_column filePos)
                then markColumn env l (the (pos_column filePos)) else l)]
          else
            writeLine env st [''%s | %s'', pad (numToString (ln + 1)) longestLength, l])"

definition writeFilePosition ::
  "('c, 'v) env \<Rightarrow> 'c state \<Rightarrow> int list \<Rightarrow> (int \<Rightarrow> string option) \<Rightarrow> position
     \<Rightarrow> error + 'c state" where
  \<comment> \<open>\<open>linenums\<close> is \<^verbatim>\<open>Object.keys(lines)\<close> as numbers, \<open>lns\<close> the object \<^verbatim>\<open>lines\<close>\<close>
  "writeFilePosition env st linenums lns filePos =
     (case map (\<lambda>n. length (numToString (n + 1))) (filter (\<lambda>n. truthy (lns n)) linenums) of
        [] \<Rightarrow> Inl ReduceOfEmptyArray
      | w # ws \<Rightarrow>
          Inr (foldl (writeRow env lns filePos (foldl max w ws)) st linenums))"

definition windowKeys :: "int \<Rightarrow> int list" where
  \<comment> \<open>\<^verbatim>\<open>Object.keys\<close> of the object with the keys \<open>l - 2\<close>, \<open>l - 1\<close>, \<open>l\<close>: the array
      indices in ascending order, then the negative keys in the order they were set\<close>
  "windowKeys l = filter (\<lambda>k. 0 \<le> k) [l - 2, l - 1, l] @ filter (\<lambda>k. k < 0) [l - 2, l - 1, l]"

definition windowObject :: "string list \<Rightarrow> int \<Rightarrow> int \<Rightarrow> string option" where
  \<comment> \<open>the object \<^verbatim>\<open>ln\<close> of \<^verbatim>\<open>_writeStackFilePosition\<close>\<close>
  "windowObject lines l k = (if k = l - 2 \<or> k = l - 1 \<or> k = l then nthOpt lines k else None)"

definition writeStackFilePosition ::
  "('c, 'v) env \<Rightarrow> 'c state \<Rightarrow> string list \<Rightarrow> position \<Rightarrow> error + 'c state" where
  \<comment> \<open>\<^verbatim>\<open>_writeStackFilePosition\<close>\<close>
  "writeStackFilePosition env st lines pos =
     (case writeFilePosition env (writeLine env st [])
             (windowKeys (int (pos_line pos))) (windowObject lines (int (pos_line pos))) pos of
        Inl e \<Rightarrow> Inl e
      | Inr st' \<Rightarrow> Inr (writeLine env st' []))"

section \<open>Source maps\<close>

definition parseInlineSourceMap ::
  "('c, 'v) env \<Rightarrow> string \<Rightarrow> error + ('c option \<times> event list)" where
  \<comment> \<open>\<open>Inr (None, _)\<close> is the \<^verbatim>\<open>undefined\<close> returned for a value that is no data URI\<close>
  "parseInlineSourceMap env sm =
     (if take 5 sm = ''data:'' then
        (case dataUriToBuffer env sm of
           None \<Rightarrow> Inl LibraryError
         | Some buf \<Rightarrow>
             (case newConsumer env buf of
                None \<Rightarrow> Inl LibraryError
              | Some c \<Rightarrow> Inr (Some c, [NewConsumer buf])))
      else Inr (None, []))"

definition parseExternalSourceMap ::
  "('c, 'v) env \<Rightarrow> string \<Rightarrow> string \<Rightarrow> 'c option \<times> event list" where
  \<comment> \<open>\<open>None\<close> is the \<^verbatim>\<open>null\<close> of the \<^verbatim>\<open>catch\<close> block\<close>
  "parseExternalSourceMap env filePath sm =
     (let smPath = pathResolve env filePath sm in
      case readFileSync env smPath of
        None \<Rightarrow> (None, [ReadFile smPath])
      | Some txt \<Rightarrow> (newConsumer env txt, [ReadFile smPath, NewConsumer txt]))"

definition resolveSourceMap ::
  "('c, 'v) env \<Rightarrow> 'c state \<Rightarrow> string \<Rightarrow> string \<Rightarrow> error + ('c option \<times> 'c state)" where
  \<comment> \<open>the lines \<^verbatim>\<open>var smc = this.sourceMapCache[fileName]; if(smc !== null) {...}\<close>
      of \<^verbatim>\<open>writeStackLine\<close>\<close>
  "resolveSourceMap env st fileName sm =
     (if sourceMapCache st fileName \<noteq> Some None then
        (case parseInlineSourceMap env sm of
           Inl e \<Rightarrow> Inl e
         | Inr (Some c, evs) \<Rightarrow>
             Inr (Some c, st\<lparr>sourceMapCache := (sourceMapCache st)(fileName \<mapsto> Some c),
                              io := io st @ evs\<rparr>)
         | Inr (None, evs) \<Rightarrow>
             (case parseExternalSourceMap env fileName sm of
                (smc, evs') \<Rightarrow>
                  Inr (smc, st\<lparr>sourceMapCache := (sourceMapCache st)(fileName \<mapsto> smc),
                                io := io st @ evs @ evs'\<rparr>)))
      else Inr (None, st))"

definition writeOriginalSource ::
  "('c, 'v) env \<Rightarrow> 'c state \<Rightarrow> 'c \<Rightarrow> position \<Rightarrow> error + 'c state" where
  \<comment> \<open>the body of \<^verbatim>\<open>if(smc) {...}\<close> in \<^verbatim>\<open>writeStackLine\<close>\<close>
  "writeOriginalSource env st smc pos =
     (let posSM = originalPositionFor env smc pos in
      if truthy (source posSM) then
        (let fileContent = sourceContentFor env smc (the (source posSM)) in
         if truthy fileContent then
           (case writeStackFilePosition env
                   (writeLine env (st\<lparr>indentation := indentation st + 1\<rparr>)
                      [color env ''error stack source-map''
                         (Some (''at '' @ the (source posSM) @ '':''
                                @ numToString (int (orig_line posSM))
                                @ (if truthyNum (orig_column posSM)
                                   then '':'' @ numToString (int (the (orig_column posSM)))
                                   else [])))])
                   (splitLines (the fileContent))
                   \<lparr>pos_line = orig_line posSM,
                    pos_column = (if truthyNum (orig_column posSM)
                                  then Some (the (orig_column posSM) + 1)
                                  else orig_column posSM)\<rparr> of
              Inl e \<Rightarrow> Inl e
            | Inr st' \<Rightarrow> Inr (st'\<lparr>indentation := indentation st' - 1\<rparr>))
         else Inr st)
      else Inr st)"

section \<open>One stack line\<close>

definition readStackFile :: "('c, 'v) env \<Rightarrow> 'c state \<Rightarrow> string \<Rightarrow> 'c state" where
  \<comment> \<open>\<^verbatim>\<open>if(this.filesCache[fileName] === undefined) { try {...} catch(e) {} }\<close>\<close>
  "readStackFile env st fileName =
     (case filesCache st fileName of
        Some lines \<Rightarrow> st
      | None \<Rightarrow>
          (case readFileSync env fileName of
             None \<Rightarrow> st\<lparr>io := io st @ [ReadFile fileName]\<rparr>
           | Some txt \<Rightarrow>
               st\<lparr>filesCache := (filesCache st)(fileName \<mapsto> splitLines txt),
                   io := io st @ [ReadFile fileName]\<rparr>))"

definition writeStackLine ::
  "('c, 'v) env \<Rightarrow> options \<Rightarrow> 'c state \<Rightarrow> string \<Rightarrow> string \<Rightarrow> nat option \<Rightarrow> nat option
     \<Rightarrow> error + 'c state" where
  "writeStackLine env opts st l fileName lineNumber columnNumber =
     (let st1 = writeLine env st [color env ''error stack'' (Some l)] in
      case lineNumber of
        None \<Rightarrow> Inr st1
      | Some n \<Rightarrow>
          (let pos = \<lparr>pos_line = n,
                      pos_column = (if truthyNum columnNumber then columnNumber else None)\<rparr>;
               st2 = readStackFile env st1 fileName in
           case filesCache st2 fileName of
             None \<Rightarrow> Inr st2
           | Some lines \<Rightarrow>
               (let sm = linesContainSourceMap lines in
                case (if showJavascriptFiles opts \<or> \<not> truthy sm
                      then writeStackFilePosition env st2 lines pos else Inr st2) of
                  Inl e \<Rightarrow> Inl e
                | Inr st3 \<Rightarrow>
                    if truthy sm \<and> showSourceMapFiles opts then
                      (case resolveSourceMap env st3 fileName (the sm) of
                         Inl e \<Rightarrow> Inl e
                       | Inr (None, st4) \<Rightarrow> Inr st4
                       | Inr (Some smc, st4) \<Rightarrow> writeOriginalSource env st4 smc pos)
                    else Inr st3)))"

section \<open>The value diff\<close>

definition replaceChar :: "char \<Rightarrow> string \<Rightarrow> string \<Rightarrow> string" where
  "replaceChar c rep s = concat (map (\<lambda>x. if x = c then rep else [x]) s)"

definition escapeInvisibles :: "string \<Rightarrow> string" where
  "escapeInvisibles l =
     replaceChar (CHR 0x0A) (''<LF>'' @ [CHR 0x0A])
       (replaceChar (CHR 0x0D) ''<CR>'' (replaceChar (CHR 0x09) ''<TAB>'' l))"

definition writeDiffLine :: "('c, 'v) env \<Rightarrow> bool \<Rightarrow> 'c state \<Rightarrow> string \<Rightarrow> 'c state" where
  \<comment> \<open>the callback of \<^verbatim>\<open>lines.forEach\<close> in \<^verbatim>\<open>writeDiff\<close>\<close>
  "writeDiffLine env escape st l =
     (if l = [] then st
      else
        (let begining = take 1 l;
             l' = (if escape then escapeInvisibles l else l);
             added = (begining = ''+'');
             removed = (begining = ''-'');
             usual = (begining = '' '')
         in if \<not> added \<and> \<not> removed \<and> \<not> usual then st
            else writeLine env st
                   [if added then color env ''diff added'' (Some l')
                    else if removed then color env ''diff removed'' (Some l')
                    else l']))"

definition writeDiff :: "('c, 'v) env \<Rightarrow> 'c state \<Rightarrow> string \<Rightarrow> string \<Rightarrow> bool \<Rightarrow> 'c state" where
  "writeDiff env st act exp escape =
     foldl (writeDiffLine env escape)
       (writeLine env
          (writeLine env (writeLine env st [])
             [color env ''diff added'' (Some ''+ expected'') @ '' ''
              @ color env ''diff removed'' (Some ''- actual'')])
          [])
       (drop 4 (splitLines (createPatch env act exp)))"

definition stringify :: "('c, 'v) env \<Rightarrow> 'v jsval \<Rightarrow> string" where
  "stringify env obj = shouldFormat env obj"

definition sameType :: "('c, 'v) env \<Rightarrow> 'v jsval \<Rightarrow> 'v jsval \<Rightarrow> bool" where
  "sameType env a b =
     (fst (getType env a) = fst (getType env b)
      \<and> fst (snd (getType env a)) = fst (snd (getType env b))
      \<and> snd (snd (getType env a)) = snd (snd (getType env b)))"

definition isString :: "'v jsval \<Rightarrow> bool" where
  \<comment> \<open>\<^verbatim>\<open>typeof v === 'string'\<close>\<close>
  "isString v = (case v of JString s \<Rightarrow> True | JOther x \<Rightarrow> False)"

definition writeFailureDiff ::
  "('c, 'v) env \<Rightarrow> 'c state \<Rightarrow> 'v jsval \<Rightarrow> 'v jsval \<Rightarrow> 'c state" where
  \<comment> \<open>the two conditionals on \<^verbatim>\<open>actual\<close> and \<^verbatim>\<open>expected\<close> in \<^verbatim>\<open>writeFailures\<close>;
      \<^verbatim>\<open>escape\<close> starts as \<^verbatim>\<open>true\<close>\<close>
  "writeFailureDiff env st act exp =
     (if sameType env act exp \<and> \<not> isString act then
        (if stringify env act \<noteq> stringify env exp
         then writeDiff env st (stringify env act) (stringify env exp) False
         else st)
      else
        (case (act, exp) of
           (JString a, JString e) \<Rightarrow> if a \<noteq> e then writeDiff env st a e True else st
         | _ \<Rightarrow> st))"

section \<open>The failure report\<close>

definition printErrorMessage ::
  "('c, 'v) env \<Rightarrow> options \<Rightarrow> 'c state \<Rightarrow> string \<Rightarrow> 'c state" where
  "printErrorMessage env opts st msg =
     (if hideTestingLibraryDOM opts \<and> includesStr msg ''Unable to find an element'' then
        writeLine env st [color env ''error message'' (Some ''%s''), hd (splitLines msg)]
      else
        foldl (\<lambda>s messageLine.
                 writeLine env s [color env ''error message'' (Some ''%s''), messageLine])
          st (splitLines msg))"

definition stackLines :: "string \<Rightarrow> string \<Rightarrow> string list" where
  \<comment> \<open>\<^verbatim>\<open>stack.substr(index + message.length).split('\n').map(trim)\<close> followed by
      the \<^verbatim>\<open>filter\<close> that drops the empty lines\<close>
  "stackLines stk msg =
     filter (\<lambda>l. 0 < length l)
       (map trim (splitLines (substrFrom stk (indexOf stk msg + int (length msg)))))"

text \<open>
  The \<^verbatim>\<open>forEach\<close> over the non-empty stack lines: \<open>i\<close> is the callback's index,
  the two flags are the variables \<^verbatim>\<open>isFilesBeforeTests\<close> and \<^verbatim>\<open>isTestFiles\<close> of
  the enclosing function. \<open>files\<close> is \<^verbatim>\<open>this.files\<close>. An exception in the callback
  ends the loop.
\<close>

fun stackWalk ::
  "('c, 'v) env \<Rightarrow> options \<Rightarrow> string list \<Rightarrow> frame list \<Rightarrow> string list \<Rightarrow> nat
     \<Rightarrow> bool \<Rightarrow> bool \<Rightarrow> 'c state \<Rightarrow> error + 'c state" where
  "stackWalk env opts files parsedStack [] i isFilesBeforeTests isTestFiles st = Inr st"
| "stackWalk env opts files parsedStack (l # ls) i isFilesBeforeTests isTestFiles st =
     (if length parsedStack \<le> i then Inl UndefinedFrame
      else if hideNodeModulesStack opts then
        (case getFileName (parsedStack ! i) of
           None \<Rightarrow> Inl NullFileName
         | Some fileName \<Rightarrow>
             if includesStr fileName ''node_modules''
             then stackWalk env opts files parsedStack ls (Suc i) isFilesBeforeTests isTestFiles st
             else
               (let isTestFiles' = (fileName \<in> set files);
                    isFilesBeforeTests' =
                      (if fileName \<in> set files then False else isFilesBeforeTests)
                in if (isTestFiles' \<or> isFilesBeforeTests')
                      \<and> (\<not> truthy (stackExclude opts)
                           \<or> \<not> minimatch env fileName (the (stackExclude opts)))
                   then
                     (case writeStackLine env opts st l fileName
                             (getLineNumber (parsedStack ! i)) (getColumnNumber (parsedStack ! i)) of
                        Inl e \<Rightarrow> Inl e
                      | Inr st' \<Rightarrow>
                          stackWalk env opts files parsedStack ls (Suc i)
                            isFilesBeforeTests' isTestFiles' st')
                   else
                     stackWalk env opts files parsedStack ls (Suc i)
                       isFilesBeforeTests' isTestFiles' st))
      else stackWalk env opts files parsedStack ls (Suc i) isFilesBeforeTests isTestFiles st)"

definition resolve :: "('c, 'v) env \<Rightarrow> 'v error_object \<Rightarrow> frame list" where
  \<comment> \<open>Modelled from the spec: the frame resolver is \<^verbatim>\<open>stacktrace.parse\<close> of the
      package \<^verbatim>\<open>stack-trace\<close>, which is not among the source files; the spec has the
      frames derived from the error's stack text, so the resolver is the parameter
      \<open>parse\<close> applied to that text.\<close>
  "resolve env e = parse env (stack e)"

definition writeTitle ::
  "('c, 'v) env \<Rightarrow> options \<Rightarrow> nat \<Rightarrow> 'c state \<Rightarrow> 'v test \<Rightarrow> nat \<Rightarrow> 'c state" where
  \<comment> \<open>the callback of \<^verbatim>\<open>failures.forEach\<close> up to \<^verbatim>\<open>if(!test.timedOut)\<close>;
      \<open>n\<close> is \<^verbatim>\<open>failures.length\<close>\<close>
  "writeTitle env opts n st t i =
     (let st1 = writeLine env st [];
          st2 = writeLine env st1
                  [color env ''fail'' (Some ''%d) %s''),
                   numToString (int (if showFailsInBackOrder opts then n - 1 - i else i) + 1),
                   joinWith '' > '' (titlePath t)];
          st3 = writeLine env st2 []
      in printErrorMessage env opts (st3\<lparr>indentation := indentation st3 + 1\<rparr>)
           (message (err t)))"

definition writeFailureHead ::
  "('c, 'v) env \<Rightarrow> options \<Rightarrow> nat \<Rightarrow> 'c state \<Rightarrow> 'v test \<Rightarrow> nat \<Rightarrow> 'c state" where
  \<comment> \<open>what the callback writes before the loop over the stack lines, for a test that
      did not time out\<close>
  "writeFailureHead env opts n st t i =
     writeLine env
       (writeFailureDiff env (writeTitle env opts n st t i) (actual (err t)) (expected (err t)))
       []"

definition writeFailure ::
  "('c, 'v) env \<Rightarrow> options \<Rightarrow> string list \<Rightarrow> nat \<Rightarrow> 'c state \<Rightarrow> 'v test \<Rightarrow> nat
     \<Rightarrow> error + 'c state" where
  "writeFailure env opts files n st t i =
     (if \<not> timedOut t then
        (case stackWalk env opts files (resolve env (err t))
                (stackLines (stack (err t)) (message (err t))) 0 True True
                (writeFailureHead env opts n st t i) of
           Inl e \<Rightarrow> Inl e
         | Inr st' \<Rightarrow> Inr (st'\<lparr>indentation := indentation st' - 1\<rparr>))
      else
        (let st' = writeTitle env opts n st t i
         in Inr (st'\<lparr>indentation := indentation st' - 1\<rparr>)))"

fun forEachFailure ::
  "('c, 'v) env \<Rightarrow> options \<Rightarrow> string list \<Rightarrow> nat \<Rightarrow> 'v test list \<Rightarrow> nat \<Rightarrow> 'c state
     \<Rightarrow> error + 'c state" where
  "forEachFailure env opts files n [] i st = Inr st"
| "forEachFailure env opts files n (t # ts) i st =
     (case writeFailure env opts files n st t i of
        Inl e \<Rightarrow> Inl e
      | Inr st' \<Rightarrow> forEachFailure env opts files n ts (Suc i) st')"

definition writeFailures ::
  "('c, 'v) env \<Rightarrow> options \<Rightarrow> string list \<Rightarrow> 'c state \<Rightarrow> 'v test list \<Rightarrow> error + 'c state" where
  "writeFailures env opts files st failures =
     (let st1 = writeLine env
                  (writeLine env st [''------------------------------------------------------''])
                  [color env ''stat'' (Some ''Failed tests'')];
          fs = (if showFailsInBackOrder opts then rev failures else failures)
      in case forEachFailure env opts files (length fs) fs 0
                (st1\<lparr>indentation := indentation st1 + 1\<rparr>) of
           Inl e \<Rightarrow> Inl e
         | Inr st' \<Rightarrow> Inr (st'\<lparr>indentation := indentation st' - 1\<rparr>))"

section \<open>Sample collaborators\<close>

text \<open>
  Concrete collaborators for the evaluations below: no colours, a
  \<^verbatim>\<open>util.format\<close> that fills \<^verbatim>\<open>%s\<close> and \<^verbatim>\<open>%d\<close> in order and appends the
  arguments left over, no readable file, and no data URI or map text that
  \<^verbatim>\<open>dataUriToBuffer\<close> or the \<^verbatim>\<open>SourceMapConsumer\<close> constructor accepts.
\<close>

definition plainColor :: "string \<Rightarrow> string option \<Rightarrow> string" where
  "plainColor style txt = (case txt of None \<Rightarrow> ''undefined'' | Some s \<Rightarrow> s)"

fun fillPlaceholders :: "string \<Rightarrow> string list \<Rightarrow> string" where
  "fillPlaceholders [] args = concat (map (\<lambda>a. CHR '' '' # a) args)"
| "fillPlaceholders [c] args = c # concat (map (\<lambda>a. CHR '' '' # a) args)"
| "fillPlaceholders (c # d # cs) args =
     (if c = CHR ''%'' \<and> (d = CHR ''s'' \<or> d = CHR ''d'') then
        (case args of
           [] \<Rightarrow> c # d # fillPlaceholders cs []
         | a # as \<Rightarrow> a @ fillPlaceholders cs as)
      else c # fillPlaceholders (d # cs) args)"

definition plainFormat :: "string list \<Rightarrow> string" where
  "plainFormat args = (case args of [] \<Rightarrow> [] | f # as \<Rightarrow> fillPlaceholders f as)"

definition plainEnv :: "(string, nat) env" where
  "plainEnv =
     \<lparr>readFileSync = (\<lambda>p. None),
      pathResolve = (\<lambda>filePath sm. sm),
      dataUriToBuffer = (\<lambda>sm. None),
      newConsumer = (\<lambda>txt. None),
      originalPositionFor = (\<lambda>c pos. \<lparr>source = None, orig_line = 0, orig_column = None\<rparr>),
      sourceContentFor = (\<lambda>c src. None),
      color = plainColor,
      format = plainFormat,
      configIndentation = 2,
      minimatch = (\<lambda>f pat. False),
      createPatch = (\<lambda>a e. []),
      getType = (\<lambda>v. (None, None, None)),
      shouldFormat = (\<lambda>v. []),
      parse = (\<lambda>stk. [])\<rparr>"

definition defaultOptions :: options where
  \<comment> \<open>the options of the constructor when no reporter option is given\<close>
  "defaultOptions =
     \<lparr>showSourceMapFiles = False, showJavascriptFiles = True, showFailsInBackOrder = False,
      hideNodeModulesStack = True, hideTestingLibraryDOM = True, stackExclude = None\<rparr>"

definition initialState :: "string state" where
  "initialState =
     \<lparr>indentation = 0, filesCache = Map.empty, sourceMapCache = Map.empty, out = [], io = []\<rparr>"

definition sourceMapOptions :: options where
  \<comment> \<open>the options for the reporter option \<^verbatim>\<open>show-file-content=sm\<close>\<close>
  "sourceMapOptions = defaultOptions\<lparr>showSourceMapFiles := True, showJavascriptFiles := False\<rparr>"

definition anonymousFrameStack :: string where
  \<comment> \<open>a stack whose second frame has no file name\<close>
  "anonymousFrameStack =
     ''Error: boom'' @ [CHR 0x0A] @ ''    at Context.<anonymous> (/p/test/a.js:3:9)''
     @ [CHR 0x0A] @ ''    at Array.forEach (<anonymous>)''"

definition plainStack :: string where
  "plainStack = ''Error: bang'' @ [CHR 0x0A] @ ''    at Context.<anonymous> (/p/test/b.js:7:5)''"

definition anonymousFrameTest :: "nat test" where
  "anonymousFrameTest =
     \<lparr>titlePath = [''suite'', ''first''],
      err = \<lparr>message = ''boom'', stack = anonymousFrameStack,
             actual = JOther 0, expected = JOther 0\<rparr>,
      timedOut = False\<rparr>"

definition plainTest :: "nat test" where
  "plainTest =
     \<lparr>titlePath = [''suite'', ''second''],
      err = \<lparr>message = ''bang'', stack = plainStack,
             actual = JOther 0, expected = JOther 0\<rparr>,
      timedOut = False\<rparr>"

definition framesEnv :: "(string, nat) env" where
  \<comment> \<open>the frames of the two stacks above; \<^verbatim>\<open>/p/test/b.js\<close> is readable and has
      two lines\<close>
  "framesEnv =
     plainEnv\<lparr>
       readFileSync :=
         (\<lambda>p. if p = ''/p/test/b.js'' then Some (''a'' @ [CHR 0x0A] @ ''b'') else None),
       parse :=
         (\<lambda>stk. if stk = anonymousFrameStack
                then [\<lparr>getFileName = Some ''/p/test/a.js'', getLineNumber = Some 3,
                       getColumnNumber = Some 9\<rparr>,
                      \<lparr>getFileName = None, getLineNumber = None, getColumnNumber = None\<rparr>]
                else [\<lparr>getFileName = Some ''/p/test/b.js'', getLineNumber = Some 7,
                       getColumnNumber = Some 5\<rparr>])\<rparr>"

definition showAllOptions :: options where
  \<comment> \<open>the default options with \<^verbatim>\<open>hideNodeModulesStack\<close> switched off\<close>
  "showAllOptions = defaultOptions\<lparr>hideNodeModulesStack := False\<rparr>"

definition numberEnv :: "(string, nat) env" where
  \<comment> \<open>values that are numbers or strings, with their type and their text\<close>
  "numberEnv =
     plainEnv\<lparr>
       getType :=
         (\<lambda>v. case v of JString s \<Rightarrow> (Some ''string'', None, None)
                        | JOther n \<Rightarrow> (Some ''number'', None, None)),
       shouldFormat := (\<lambda>v. case v of JString s \<Rightarrow> s | JOther n \<Rightarrow> natToString n)\<rparr>"

definition anonymousEnv :: "(string, nat) env" where
  \<comment> \<open>every stack has one frame, which has no file name\<close>
  "anonymousEnv =
     numberEnv\<lparr>parse :=
       (\<lambda>stk. [\<lparr>getFileName = None, getLineNumber = None, getColumnNumber = None\<rparr>])\<rparr>"

definition numberTest :: "nat test" where
  "numberTest =
     \<lparr>titlePath = [''suite'', ''second''],
      err = \<lparr>message = ''bang'',
             stack = ''Error: bang'' @ [CHR 0x0A] @ ''    at Array.forEach (<anonymous>)'',
             actual = JOther 1, expected = JOther 1\<rparr>,
      timedOut = False\<rparr>"

definition diffMarker :: "string \<Rightarrow> bool" where
  \<comment> \<open>the line begins with \<open>+\<close>, \<open>-\<close> or a space\<close>
  "diffMarker l = (take 1 l = ''+'' \<or> take 1 l = ''-'' \<or> take 1 l = '' '')"

definition diffRow :: "('c, 'v) env \<Rightarrow> bool \<Rightarrow> string \<Rightarrow> string" where
  \<comment> \<open>a patch line as it is styled: added, removed or context\<close>
  "diffRow env escape l =
     (if take 1 l = ''+''
      then color env ''diff added'' (Some (if escape then escapeInvisibles l else l))
      else if take 1 l = ''-''
      then color env ''diff removed'' (Some (if escape then escapeInvisibles l else l))
      else (if escape then escapeInvisibles l else l))"

definition patchEnv :: "(string, nat) env" where
  \<comment> \<open>the patch of \<^verbatim>\<open>foo\nbar\<close> against \<^verbatim>\<open>foo\nbaz\<close>\<close>
  "patchEnv =
     plainEnv\<lparr>createPatch :=
       (\<lambda>a e. concat (map (\<lambda>l. l @ [CHR 0x0A])
          [''Index: str'',
           ''==================================================================='',
           ''--- str'',
           ''+++ str'',
           ''@@ -1,2 +1,2 @@'',
           '' foo'',
           ''-bar'',
           [CHR 0x5C] @ '' No newline at end of file'',
           ''+baz'',
           [CHR 0x5C] @ '' No newline at end of file'']))\<rparr>"

definition windowCandidates :: "nat \<Rightarrow> nat list" where
  \<comment> \<open>the indices of the line before line \<open>l\<close>, of line \<open>l\<close> and of the line after it
      (lines count from 1, indices from 0), without the negative ones\<close>
  "windowCandidates l = map nat (filter (\<lambda>k. 0 \<le> k) [int l - 2, int l - 1, int l])"

definition windowRows :: "string list \<Rightarrow> nat \<Rightarrow> nat list" where
  \<comment> \<open>the candidates that are lines of the file and are not empty\<close>
  "windowRows lines l =
     filter (\<lambda>k. k < length lines \<and> lines ! k \<noteq> []) (windowCandidates l)"

definition snippetRow ::
  "('c, 'v) env \<Rightarrow> 'c state \<Rightarrow> string list \<Rightarrow> position \<Rightarrow> nat \<Rightarrow> nat \<Rightarrow> string" where
  \<comment> \<open>the row of the line with index \<open>k\<close>, its number padded to the width \<open>w\<close>\<close>
  "snippetRow env st lines pos w k =
     indent env (indentation st)
     @ format env
         [''%s | %s'',
          (if Suc k = pos_line pos
           then color env ''error line pos'' (Some (pad (natToString (Suc k)) w))
           else pad (natToString (Suc k)) w),
          (if Suc k = pos_line pos \<and> truthyNum (pos_column pos)
           then markColumn env (lines ! k) (the (pos_column pos))
           else lines ! k)]"

definition rowWidth :: "nat list \<Rightarrow> nat" where
  \<comment> \<open>the length of the longest line number among the rows\<close>
  "rowWidth rows = Max (set (map (\<lambda>k. length (natToString (Suc k))) rows))"

definition elevenLines :: "string list" where
  "elevenLines = [''a'', ''b'', ''c'', ''d'', ''e'', ''f'', ''g'', ''h'', ''i'', ''j'', ''k'']"

definition projectFrame :: "string list \<Rightarrow> frame \<Rightarrow> bool" where
  \<comment> \<open>a frame outside \<^verbatim>\<open>node_modules\<close> whose file is one of the run's files\<close>
  "projectFrame files fr =
     (case getFileName fr of
        None \<Rightarrow> False
      | Some f \<Rightarrow> \<not> includesStr f ''node_modules'' \<and> f \<in> set files)"

definition frameRendered ::
  "('c, 'v) env \<Rightarrow> options \<Rightarrow> string list \<Rightarrow> bool \<Rightarrow> frame list \<Rightarrow> nat \<Rightarrow> bool" where
  \<comment> \<open>frame \<open>j\<close> is outside \<^verbatim>\<open>node_modules\<close>, it is a project file or no project frame
      comes before it (and \<open>before\<close> held at the start), and the exclusion pattern does
      not match it\<close>
  "frameRendered env opts files before frames j =
     (case getFileName (frames ! j) of
        None \<Rightarrow> False
      | Some f \<Rightarrow>
          \<not> includesStr f ''node_modules''
          \<and> (f \<in> set files \<or> (before \<and> (\<forall>k<j. \<not> projectFrame files (frames ! k))))
          \<and> \<not> (truthy (stackExclude opts) \<and> minimatch env f (the (stackExclude opts))))"

fun writeStackLines ::
  "('c, 'v) env \<Rightarrow> options \<Rightarrow> (string \<times> frame) list \<Rightarrow> 'c state \<Rightarrow> error + 'c state" where
  \<comment> \<open>\<^verbatim>\<open>writeStackLine\<close> for each pair of a stack line and its frame, in order\<close>
  "writeStackLines env opts [] st = Inr st"
| "writeStackLines env opts ((l, fr) # rest) st =
     (case writeStackLine env opts st l (the (getFileName fr))
             (getLineNumber fr) (getColumnNumber fr) of
        Inl e \<Rightarrow> Inl e
      | Inr st' \<Rightarrow> writeStackLines env opts rest st')"

definition scenarioFrames :: "frame list" where
  "scenarioFrames =
     [\<lparr>getFileName = Some ''project/a.js'', getLineNumber = Some 10, getColumnNumber = None\<rparr>,
      \<lparr>getFileName = Some ''node_modules/x/b.js'', getLineNumber = Some 5,
       getColumnNumber = None\<rparr>,
      \<lparr>getFileName = Some ''project/c.js'', getLineNumber = Some 3, getColumnNumber = None\<rparr>]"

definition scenarioLines :: "string list" where
  "scenarioLines = [''at project/a.js:10'', ''at node_modules/x/b.js:5'', ''at project/c.js:3'']"

definition libraryFrames :: "frame list" where
  \<comment> \<open>the second frame is outside \<^verbatim>\<open>node_modules\<close> and is no project file\<close>
  "libraryFrames =
     [\<lparr>getFileName = Some ''project/a.js'', getLineNumber = Some 10, getColumnNumber = None\<rparr>,
      \<lparr>getFileName = Some ''lib/x.js'', getLineNumber = Some 5, getColumnNumber = None\<rparr>,
      \<lparr>getFileName = Some ''project/c.js'', getLineNumber = Some 3, getColumnNumber = None\<rparr>]"

definition libraryLines :: "string list" where
  "libraryLines = [''at project/a.js:10'', ''at lib/x.js:5'', ''at project/c.js:3'']"

definition headerStack :: string where
  \<comment> \<open>the stack text of \<^verbatim>\<open>new Error()\<close>: the header line and one frame\<close>
  "headerStack = ''Error'' @ [CHR 0x0A] @ ''    at f (/p/a.js:1:1)''"

definition emptyMessageError :: "nat error_object" where
  "emptyMessageError =
     \<lparr>message = [], stack = headerStack, actual = JOther 0, expected = JOther 0\<rparr>"

definition headerMessageError :: "nat error_object" where
  "headerMessageError =
     \<lparr>message = ''Error'', stack = headerStack, actual = JOther 0, expected = JOther 0\<rparr>"

definition validMapJson :: string where
  \<comment> \<open>a source map of one mapping, from line 1, column 0 of the generated file to
      line 1, column 0 of \<^verbatim>\<open>a.ts\<close>, with the content of \<^verbatim>\<open>a.ts\<close>; \<open>CHR 0x22\<close> is the
      double quote\<close>
  "validMapJson =
     ''{'' @ [CHR 0x22] @ ''version'' @ [CHR 0x22] @ '':3,'' @ [CHR 0x22] @ ''file'' @
     [CHR 0x22] @ '':'' @ [CHR 0x22] @ ''a.js'' @ [CHR 0x22] @ '','' @ [CHR 0x22] @
     ''sources'' @ [CHR 0x22] @ '':['' @ [CHR 0x22] @ ''a.ts'' @ [CHR 0x22] @ ''],'' @
     [CHR 0x22] @ ''sourcesContent'' @ [CHR 0x22] @ '':['' @ [CHR 0x22] @ ''let x;'' @
     [CHR 0x22] @ ''],'' @ [CHR 0x22] @ ''names'' @ [CHR 0x22] @ '':[],'' @
     [CHR 0x22] @ ''mappings'' @ [CHR 0x22] @ '':'' @ [CHR 0x22] @ ''AAAA'' @
     [CHR 0x22] @ ''}''"

definition validMapUri :: string where
  \<comment> \<open>the data URI of \<open>validMapJson\<close> in base 64\<close>
  "validMapUri =
     ''data:application/json;base64,'' @
     ''eyJ2ZXJzaW9uIjozLCJmaWxlIjoiYS5qcyIsInNvdXJjZXMiOlsiYS50cyJdLCJzb3VyY2'' @
     ''VzQ29udGVudCI6WyJsZXQgeDsiXSwibmFtZXMiOltdLCJtYXBwaW5ncyI6IkFBQUEifQ==''"

definition validMapFile :: string where
  \<comment> \<open>the text of a generated file that ends in the inline source map\<close>
  "validMapFile = ''var x;'' @ [CHR 0x0A] @ ''//# sourceMappingURL='' @ validMapUri"

definition validMapEnv :: "(string, nat) env" where
  \<comment> \<open>one readable file, \<^verbatim>\<open>/p/a.js\<close>, which ends in the inline source map above;
      \<^verbatim>\<open>dataUriToBuffer\<close> decodes that URI and the constructor accepts that map, and
      both raise on every other text; the consumer is the map text, and answers as
      the map says: every position of line 1 comes from line 1, column 0 of
      \<^verbatim>\<open>a.ts\<close>\<close>
  "validMapEnv =
     plainEnv\<lparr>
       readFileSync :=
         (\<lambda>p. if p = ''/p/a.js'' then Some validMapFile else None),
       dataUriToBuffer := (\<lambda>sm. if sm = validMapUri then Some validMapJson else None),
       newConsumer := (\<lambda>txt. if txt = validMapJson then Some txt else None),
       originalPositionFor :=
         (\<lambda>c pos. if c = validMapJson \<and> pos_line pos = 1
                  then \<lparr>source = Some ''a.ts'', orig_line = 1, orig_column = Some 0\<rparr>
                  else \<lparr>source = None, orig_line = 0, orig_column = None\<rparr>),
       sourceContentFor :=
         (\<lambda>c src. if c = validMapJson \<and> src = ''a.ts'' then Some ''let x;'' else None)\<rparr>"

definition headerEnv :: "(string, nat) env" where
  \<comment> \<open>the frames of \<open>headerStack\<close>: the resolver drops the header line and gives the
      one frame of the one frame line\<close>
  "headerEnv =
     plainEnv\<lparr>parse :=
       (\<lambda>stk. if stk = headerStack
              then [\<lparr>getFileName = Some ''/p/a.js'', getLineNumber = Some 1,
                     getColumnNumber = Some 1\<rparr>]
              else [])\<rparr>"

definition emptyMessageTest :: "nat test" where
  \<comment> \<open>a test that failed with \<^verbatim>\<open>new Error()\<close>\<close>
  "emptyMessageTest =
     \<lparr>titlePath = [''suite'', ''third''], err = emptyMessageError, timedOut = False\<rparr>"

definition stackTextLine :: "('c, 'v) env \<Rightarrow> 'c state \<Rightarrow> string \<Rightarrow> string" where
  \<comment> \<open>the raw stack-text line \<open>l\<close> as \<^verbatim>\<open>writeStackLine\<close> writes it first\<close>
  "stackTextLine env st l =
     indent env (indentation st) @ format env [color env ''error stack'' (Some l)]"

section \<open>Properties\<close>

subsection \<open>Source-map marker detection\<close>

lemma marker_not_empty: "carriesMarker ln \<Longrightarrow> trim ln \<noteq> []"
  by (auto simp: carriesMarker_def sourceMapComment_def)

lemma scanLines_find:
  "l \<le> length lines \<Longrightarrow>
   scanLines lines l =
     (case find carriesMarker (rev (take l lines)) of
        None \<Rightarrow> None
      | Some ln \<Rightarrow> Some (markerValue ln))"
proof (induction l)
  case 0
  then show ?case by simp
next
  case (Suc l)
  then have l: "l < length lines" by simp
  have t: "take (Suc l) lines = take l lines @ [lines ! l]"
    using l by (simp add: take_Suc_conv_app_nth)
  show ?case
  proof (cases "carriesMarker (lines ! l)")
    case True
    with marker_not_empty [OF True] show ?thesis
      by (simp add: t Let_def carriesMarker_def markerValue_def)
  next
    case False
    with Suc l show ?thesis
      by (simp add: t Let_def carriesMarker_def)
  qed
qed

text \<open>
  Claim C5, as the code has it. The scan goes from the last line to the first and
  returns the value of the first line it meets whose trimmed text begins with
  \<^verbatim>\<open>//# sourceMappingURL=\<close>, whatever non-blank lines follow that line in the file;
  it returns nothing exactly when no line of the file carries the marker. When the
  last non-blank line carries the marker, it is the value of that line which is
  returned.
\<close>

theorem linesContainSourceMap_last_marker:
  "linesContainSourceMap lines =
     (case find carriesMarker (rev lines) of
        None \<Rightarrow> None
      | Some ln \<Rightarrow> Some (markerValue ln))
   \<and> ((linesContainSourceMap lines = None) = (filter carriesMarker lines = []))
   \<and> (find (\<lambda>l. trim l \<noteq> []) (rev lines) = Some ln \<and> carriesMarker ln
        \<longrightarrow> linesContainSourceMap lines = Some (markerValue ln))"
proof -
  have a: "linesContainSourceMap lines =
     (case find carriesMarker (rev lines) of
        None \<Rightarrow> None
      | Some ln \<Rightarrow> Some (markerValue ln))"
    using scanLines_find [of "length lines" lines] by (simp add: linesContainSourceMap_def)
  have n: "(find P xs = None) = (filter P xs = [])" for P :: "string \<Rightarrow> bool" and xs
    by (induction xs) auto
  have "(linesContainSourceMap lines = None) = (find carriesMarker (rev lines) = None)"
    by (simp add: a split: option.splits)
  then have b: "(linesContainSourceMap lines = None) = (filter carriesMarker lines = [])"
    by (simp add: n rev_filter [symmetric])
  have c: "find carriesMarker xs = Some ln"
    if "find (\<lambda>l. trim l \<noteq> []) xs = Some ln" "carriesMarker ln" for xs
    using that
  proof (induction xs)
    case Nil
    then show ?case by simp
  next
    case (Cons x xs)
    then show ?case using marker_not_empty [of x] by (auto split: if_splits)
  qed
  show ?thesis using a b c [of "rev lines"] by simp
qed

theorem linesContainSourceMap_last_marker_witness:
  "find (\<lambda>l. trim l \<noteq> []) (rev [''var x = 1;'', ''  //# sourceMappingURL=a.js.map'', '' ''])
     = Some ''  //# sourceMappingURL=a.js.map''
   \<and> carriesMarker ''  //# sourceMappingURL=a.js.map''
   \<and> linesContainSourceMap [''var x = 1;'', ''  //# sourceMappingURL=a.js.map'', '' '']
       = Some ''a.js.map''"
proof -
  have h: "find (\<lambda>l. trim l \<noteq> []) (rev [''var x = 1;'', ''  //# sourceMappingURL=a.js.map'', '' ''])
     = Some ''  //# sourceMappingURL=a.js.map''
   \<and> carriesMarker ''  //# sourceMappingURL=a.js.map''"
    by (simp add: trim_def isSpace_def carriesMarker_def sourceMapComment_def)
  have v: "markerValue ''  //# sourceMappingURL=a.js.map'' = ''a.js.map''"
    by (simp add: markerValue_def trim_def isSpace_def sourceMapComment_def)
  have "linesContainSourceMap [''var x = 1;'', ''  //# sourceMappingURL=a.js.map'', '' '']
          = Some (markerValue ''  //# sourceMappingURL=a.js.map'')"
    using h linesContainSourceMap_last_marker
      [of "[''var x = 1;'', ''  //# sourceMappingURL=a.js.map'', '' '']"
          "''  //# sourceMappingURL=a.js.map''"]
    by blast
  with h v show ?thesis by (simp only:)
qed

text \<open>
  The claim as written fails on a file with code after the marker: the last
  non-blank line does not carry the marker, and the scan still returns the value of
  the marker line before it.
\<close>

theorem marker_before_code_counterexample:
  "find (\<lambda>l. trim l \<noteq> []) (rev [''//# sourceMappingURL=a.js.map'', ''var x = 1;''])
     = Some ''var x = 1;''
   \<and> \<not> carriesMarker ''var x = 1;''
   \<and> linesContainSourceMap [''//# sourceMappingURL=a.js.map'', ''var x = 1;'']
       = Some ''a.js.map''"
  by (simp add: linesContainSourceMap_def numeral_2_eq_2 trim_def isSpace_def carriesMarker_def sourceMapComment_def)

subsection \<open>The file cache\<close>

text \<open>
  Claim C3, as the code has it. An unreadable stack-target file is a soft failure
  that is not cached: the failed read leaves the file cache without an entry for the
  path, so a call of \<^verbatim>\<open>writeStackLine\<close> with a line number for a path that is
  unreadable and has no cache entry writes the raw stack-text line only, makes
  exactly one read attempt, and leaves both caches as they were. The state it returns
  satisfies the same two conditions, so every later call for the path reads again.
\<close>

theorem unreadable_file_read_again:
  assumes "readFileSync env fileName = None" and "filesCache st fileName = None"
  shows "writeStackLine env opts st l fileName (Some n) columnNumber =
           Inr (st\<lparr>out := out st @ [indent env (indentation st)
                                      @ format env [color env ''error stack'' (Some l)]],
                   io := io st @ [ReadFile fileName]\<rparr>)"
  using assms by (simp add: writeStackLine_def readStackFile_def writeLine_def Let_def)

theorem unreadable_file_read_again_witness:
  "writeStackLine plainEnv defaultOptions initialState
     ''at f (/p/a.js:10:3)'' ''/p/a.js'' (Some 10) (Some 3) =
   Inr (initialState\<lparr>out := [''at f (/p/a.js:10:3)''], io := [ReadFile ''/p/a.js'']\<rparr>)"
proof -
  have r: "readFileSync plainEnv ''/p/a.js'' = None" by (simp add: plainEnv_def)
  have c: "filesCache initialState ''/p/a.js'' = None" by (simp add: initialState_def)
  have f: "indent plainEnv (indentation initialState)
             @ format plainEnv [color plainEnv ''error stack'' (Some ''at f (/p/a.js:10:3)'')]
           = ''at f (/p/a.js:10:3)''"
    by (simp add: indent_def plainEnv_def initialState_def plainFormat_def plainColor_def)
  show ?thesis
    using unreadable_file_read_again [OF r c, of defaultOptions "''at f (/p/a.js:10:3)''" 10 "Some 3"]
    by (simp only: f) (simp add: initialState_def)
qed

text \<open>
  The claim as written fails: after the first failed read the cache holds nothing for
  the path, and the second call makes a second read attempt.
\<close>

theorem unreadable_file_second_read_counterexample:
  "(case writeStackLine plainEnv defaultOptions initialState
           ''at f (/p/a.js:10:3)'' ''/p/a.js'' (Some 10) (Some 3) of
      Inl e \<Rightarrow> None
    | Inr st1 \<Rightarrow>
        (case writeStackLine plainEnv defaultOptions st1
                ''at g (/p/a.js:20:1)'' ''/p/a.js'' (Some 20) (Some 1) of
           Inl e \<Rightarrow> None
         | Inr st2 \<Rightarrow> Some (filesCache st1 ''/p/a.js'', io st1, io st2)))
   = Some (None, [ReadFile ''/p/a.js''], [ReadFile ''/p/a.js'', ReadFile ''/p/a.js''])"
  by (simp add: writeStackLine_def readStackFile_def writeLine_def Let_def plainEnv_def
        initialState_def)

subsection \<open>What writing lines leaves alone\<close>

lemma writeLine_fields [simp]:
  "indentation (writeLine env st args) = indentation st"
  "filesCache (writeLine env st args) = filesCache st"
  "sourceMapCache (writeLine env st args) = sourceMapCache st"
  "io (writeLine env st args) = io st"
  "out (writeLine env st args) = out st @ [indent env (indentation st) @ format env args]"
  by (simp_all add: writeLine_def)

lemma foldl_keeps:
  assumes "\<And>s x. g (f s x) = g s"
  shows "g (foldl f s xs) = g s"
  using assms by (induction xs arbitrary: s) simp_all

lemma writeDiffLine_fields [simp]:
  "indentation (writeDiffLine env esc st l) = indentation st"
  "filesCache (writeDiffLine env esc st l) = filesCache st"
  "sourceMapCache (writeDiffLine env esc st l) = sourceMapCache st"
  "io (writeDiffLine env esc st l) = io st"
  by (simp_all add: writeDiffLine_def Let_def)

lemma writeDiff_fields [simp]:
  "indentation (writeDiff env st a e esc) = indentation st"
  "filesCache (writeDiff env st a e esc) = filesCache st"
  "sourceMapCache (writeDiff env st a e esc) = sourceMapCache st"
  "io (writeDiff env st a e esc) = io st"
  by (simp_all add: writeDiff_def foldl_keeps [where f = "writeDiffLine env esc"])

lemma writeFailureDiff_fields [simp]:
  "indentation (writeFailureDiff env st a e) = indentation st"
  "filesCache (writeFailureDiff env st a e) = filesCache st"
  "sourceMapCache (writeFailureDiff env st a e) = sourceMapCache st"
  "io (writeFailureDiff env st a e) = io st"
  by (simp_all add: writeFailureDiff_def split: jsval.splits)

lemma printErrorMessage_fields [simp]:
  "indentation (printErrorMessage env opts st m) = indentation st"
  "filesCache (printErrorMessage env opts st m) = filesCache st"
  "sourceMapCache (printErrorMessage env opts st m) = sourceMapCache st"
  "io (printErrorMessage env opts st m) = io st"
  by (simp_all add: printErrorMessage_def
        foldl_keeps [where f = "\<lambda>s messageLine.
           writeLine env s [color env ''error message'' (Some ''%s''), messageLine]"])

lemma writeTitle_fields [simp]:
  "indentation (writeTitle env opts n st t i) = indentation st + 1"
  "filesCache (writeTitle env opts n st t i) = filesCache st"
  "sourceMapCache (writeTitle env opts n st t i) = sourceMapCache st"
  "io (writeTitle env opts n st t i) = io st"
  by (simp_all add: writeTitle_def Let_def)

lemma writeFailureHead_fields [simp]:
  "indentation (writeFailureHead env opts n st t i) = indentation st + 1"
  "filesCache (writeFailureHead env opts n st t i) = filesCache st"
  "sourceMapCache (writeFailureHead env opts n st t i) = sourceMapCache st"
  "io (writeFailureHead env opts n st t i) = io st"
  by (simp_all add: writeFailureHead_def)

lemma writeStackLine_unreadable:
  assumes "readFileSync env fileName = None" and "filesCache st fileName = None"
  shows "writeStackLine env opts st l fileName (Some n) columnNumber =
           Inr (st\<lparr>out := out st @ [indent env (indentation st)
                                      @ format env [color env ''error stack'' (Some l)]],
                   io := io st @ [ReadFile fileName]\<rparr>)"
  using assms by (simp add: writeStackLine_def readStackFile_def writeLine_def Let_def)

subsection \<open>Exceptions in the failure report\<close>

lemma stackLines_anonymousFrameStack:
  "stackLines (stack (err anonymousFrameTest)) (message (err anonymousFrameTest)) =
     [''at Context.<anonymous> (/p/test/a.js:3:9)'', ''at Array.forEach (<anonymous>)'']"
  by (simp add: anonymousFrameTest_def anonymousFrameStack_def stackLines_def indexOf_def
        substrFrom_def trim_def isSpace_def)

lemma stackLines_plainStack:
  "stackLines (stack (err plainTest)) (message (err plainTest)) =
     [''at Context.<anonymous> (/p/test/b.js:7:5)'']"
  by (simp add: plainTest_def plainStack_def stackLines_def indexOf_def
        substrFrom_def trim_def isSpace_def)

lemma resolve_framesEnv:
  "resolve framesEnv (err anonymousFrameTest) =
     [\<lparr>getFileName = Some ''/p/test/a.js'', getLineNumber = Some 3, getColumnNumber = Some 9\<rparr>,
      \<lparr>getFileName = None, getLineNumber = None, getColumnNumber = None\<rparr>]"
  "resolve framesEnv (err plainTest) =
     [\<lparr>getFileName = Some ''/p/test/b.js'', getLineNumber = Some 7, getColumnNumber = Some 5\<rparr>]"
  by (simp_all add: resolve_def framesEnv_def anonymousFrameTest_def plainTest_def
        anonymousFrameStack_def plainStack_def plainEnv_def)

lemma defaultOptions_fields:
  "hideNodeModulesStack defaultOptions" "stackExclude defaultOptions = None"
  "showJavascriptFiles defaultOptions" "\<not> showSourceMapFiles defaultOptions"
  "\<not> showFailsInBackOrder defaultOptions"
  by (simp_all add: defaultOptions_def)

lemma framesEnv_fields:
  "readFileSync framesEnv ''/p/test/a.js'' = None"
  "readFileSync framesEnv ''/p/test/b.js'' = Some (''a'' @ [CHR 0x0A] @ ''b'')"
  "minimatch framesEnv = (\<lambda>f pat. False)"
  "color framesEnv = plainColor"
  "format framesEnv = plainFormat"
  "configIndentation framesEnv = 2"
  by (simp_all add: framesEnv_def plainEnv_def)

text \<open>
  Claim C1 at two failing inputs, each a report of two failures with the default
  options. In the first the second frame of the first failure has no file name, as
  for the stack line \<^verbatim>\<open>at Array.forEach (<anonymous>)\<close>: the walk raises at that
  frame. In the second the only frame of the first failure is at line 7 of a file of
  two lines, so its window has no line to show: the snippet renderer raises. In both
  the exception leaves \<^verbatim>\<open>writeFailures\<close>, and the second failure is never reported.
\<close>

theorem frame_failure_aborts_report:
  "writeFailures framesEnv defaultOptions [''/p/test/a.js'', ''/p/test/b.js'']
     initialState [anonymousFrameTest, plainTest] = Inl NullFileName
   \<and> writeFailures framesEnv defaultOptions [''/p/test/a.js'', ''/p/test/b.js'']
       initialState [plainTest, anonymousFrameTest] = Inl ReduceOfEmptyArray"
proof -
  have t: "\<not> timedOut anonymousFrameTest" "\<not> timedOut plainTest"
    by (simp_all add: anonymousFrameTest_def plainTest_def)
  have a: "writeFailure framesEnv defaultOptions [''/p/test/a.js'', ''/p/test/b.js''] n st
             anonymousFrameTest 0 = Inl NullFileName"
    if "filesCache st ''/p/test/a.js'' = None" for st :: "string state" and n
    using that
    by (simp add: writeFailure_def t stackLines_anonymousFrameStack resolve_framesEnv
          writeStackLine_unreadable framesEnv_fields defaultOptions_fields truthy_def)
  have w: "writeStackLine framesEnv defaultOptions st l ''/p/test/b.js'' (Some 7) (Some 5)
             = Inl ReduceOfEmptyArray"
    if "filesCache st ''/p/test/b.js'' = None" for st :: "string state" and l
    using that
    by (simp add: writeStackLine_def readStackFile_def Let_def framesEnv_fields
          defaultOptions_fields linesContainSourceMap_def numeral_2_eq_2 trim_def isSpace_def
          sourceMapComment_def truthy_def truthyNum_def writeStackFilePosition_def
          writeFilePosition_def windowKeys_def windowObject_def nthOpt_def)
  have b: "writeFailure framesEnv defaultOptions [''/p/test/a.js'', ''/p/test/b.js''] n st
             plainTest 0 = Inl ReduceOfEmptyArray"
    if "filesCache st ''/p/test/b.js'' = None" for st :: "string state" and n
    using that
    by (simp add: writeFailure_def t stackLines_plainStack resolve_framesEnv w
          defaultOptions_fields truthy_def)
  have c: "filesCache initialState = Map.empty"
    by (simp add: initialState_def)
  show ?thesis
    by (simp add: writeFailures_def Let_def a b c defaultOptions_fields)
qed

subsection \<open>The stack walk with \<^verbatim>\<open>hideNodeModulesStack\<close> off\<close>

lemma stackWalk_not_hiding:
  "\<not> hideNodeModulesStack opts \<Longrightarrow>
   stackWalk env opts files parsedStack ls i b t st =
     (if ls = [] \<or> i + length ls \<le> length parsedStack then Inr st else Inl UndefinedFrame)"
  by (induction ls arbitrary: i) auto

text \<open>
  Claim C10. With \<^verbatim>\<open>hideNodeModulesStack\<close> false the body of the loop over the
  stack lines does nothing but look up the frame: the walk returns the state it was
  given (no line written, no file read), or raises when a stack line has no frame. A
  failure that did not time out and whose report returns is therefore reported by
  what is written before the walk alone.
\<close>

theorem no_stack_lines_when_not_hiding:
  assumes "\<not> hideNodeModulesStack opts"
  shows "stackWalk env opts files parsedStack ls i b t st =
           (if ls = [] \<or> i + length ls \<le> length parsedStack then Inr st
            else Inl UndefinedFrame)
         \<and> (\<not> timedOut tst \<and> writeFailure env opts files n st tst k = Inr st' \<longrightarrow>
              st' = (writeFailureHead env opts n st tst k)\<lparr>indentation := indentation st\<rparr>)"
proof
  show "stackWalk env opts files parsedStack ls i b t st =
           (if ls = [] \<or> i + length ls \<le> length parsedStack then Inr st
            else Inl UndefinedFrame)"
    using assms by (rule stackWalk_not_hiding)
  show "\<not> timedOut tst \<and> writeFailure env opts files n st tst k = Inr st' \<longrightarrow>
          st' = (writeFailureHead env opts n st tst k)\<lparr>indentation := indentation st\<rparr>"
    by (auto simp: writeFailure_def stackWalk_not_hiding [OF assms] split: if_splits)
qed

lemma numberTest_head:
  "writeFailureHead anonymousEnv showAllOptions n initialState numberTest 0 =
     initialState\<lparr>indentation := 1,
                    out := [[], ''1) suite > second'', [], '' bang'', '' '']\<rparr>"
  by (simp add: writeFailureHead_def writeTitle_def writeFailureDiff_def printErrorMessage_def
        writeLine_def indent_def Let_def anonymousEnv_def numberEnv_def plainEnv_def
        showAllOptions_def defaultOptions_def numberTest_def initialState_def sameType_def
        isString_def stringify_def plainFormat_def plainColor_def numToString_def
        natToString.simps digitChar_def)

theorem no_stack_lines_when_not_hiding_witness:
  "\<not> hideNodeModulesStack showAllOptions
   \<and> stackWalk anonymousEnv showAllOptions [] (resolve anonymousEnv (err numberTest))
       (stackLines (stack (err numberTest)) (message (err numberTest))) 0 True True
       initialState = Inr initialState
   \<and> writeFailure anonymousEnv showAllOptions [] 1 initialState numberTest 0 =
       Inr (initialState\<lparr>out := [[], ''1) suite > second'', [], '' bang'', '' '']\<rparr>)"
proof -
  have h: "\<not> hideNodeModulesStack showAllOptions"
    by (simp add: showAllOptions_def)
  have t: "\<not> timedOut numberTest"
    by (simp add: numberTest_def)
  have l: "length (stackLines (stack (err numberTest)) (message (err numberTest))) = 1"
    by (simp add: numberTest_def stackLines_def indexOf_def substrFrom_def trim_def isSpace_def)
  have p: "length (resolve anonymousEnv (err numberTest)) = 1"
    by (simp add: resolve_def anonymousEnv_def)
  have w: "stackWalk anonymousEnv showAllOptions [] (resolve anonymousEnv (err numberTest))
             (stackLines (stack (err numberTest)) (message (err numberTest))) 0 True True s
           = Inr s" for s :: "string state"
    by (simp add: no_stack_lines_when_not_hiding [OF h, THEN conjunct1] l p)
  have r: "writeFailure anonymousEnv showAllOptions [] 1 initialState numberTest 0 =
             Inr ((writeFailureHead anonymousEnv showAllOptions 1 initialState numberTest 0)
                    \<lparr>indentation := 0\<rparr>)"
    by (simp add: writeFailure_def t w) (simp add: initialState_def)
  have e: "(writeFailureHead anonymousEnv showAllOptions 1 initialState numberTest 0)
             \<lparr>indentation := 0\<rparr>
           = initialState\<lparr>out := [[], ''1) suite > second'', [], '' bang'', '' '']\<rparr>"
    unfolding numberTest_head by (simp add: initialState_def)
  from h w [of initialState] r e show ?thesis by simp
qed

subsection \<open>What the diff renderer receives\<close>



subsection \<open>The lines of a diff\<close>

lemma escapeInvisibles_first:
  "diffMarker l \<Longrightarrow> take 1 (escapeInvisibles l) = take 1 l"
  by (cases l) (auto simp: diffMarker_def escapeInvisibles_def replaceChar_def)

lemma writeDiffLine_out:
  "writeDiffLine env escape st l =
     (if diffMarker l
      then st\<lparr>out := out st @ [indent env (indentation st) @ format env [diffRow env escape l]]\<rparr>
      else st)"
  by (cases l) (auto simp: writeDiffLine_def diffMarker_def diffRow_def writeLine_def Let_def)

lemma foldl_writeDiffLine:
  "foldl (writeDiffLine env escape) st ls =
     st\<lparr>out := out st @ map (\<lambda>l. indent env (indentation st) @ format env [diffRow env escape l])
                          (filter diffMarker ls)\<rparr>"
  by (induction ls arbitrary: st) (simp_all add: writeDiffLine_out)

text \<open>
  Claim C7. \<^verbatim>\<open>writeDiff\<close> writes a blank line, the legend and a blank line, and then
  one line for each line of the patch after its first four that begins with \<open>+\<close>,
  \<open>-\<close> or a space, in the order of the patch: the first four lines and every line with
  another first character (or none) give no output. The text handed to
  \<^verbatim>\<open>writeLine\<close> is the patch line, escaped on request and styled by \<^verbatim>\<open>color\<close> when
  it is added or removed; escaping keeps its first character.
\<close>

theorem writeDiff_lines:
  "out (writeDiff env st a e escape) =
     out st
     @ [indent env (indentation st) @ format env [],
        indent env (indentation st)
          @ format env [color env ''diff added'' (Some ''+ expected'') @ '' ''
                        @ color env ''diff removed'' (Some ''- actual'')],
        indent env (indentation st) @ format env []]
     @ map (\<lambda>l. indent env (indentation st) @ format env [diffRow env escape l])
         (filter diffMarker (drop 4 (splitLines (createPatch env a e))))
   \<and> (\<forall>l. diffMarker l \<longrightarrow>
          l \<noteq> [] \<and> (hd l = CHR ''+'' \<or> hd l = CHR ''-'' \<or> hd l = CHR '' '')
          \<and> take 1 (escapeInvisibles l) = take 1 l)"
proof
  show "out (writeDiff env st a e escape) =
     out st
     @ [indent env (indentation st) @ format env [],
        indent env (indentation st)
          @ format env [color env ''diff added'' (Some ''+ expected'') @ '' ''
                        @ color env ''diff removed'' (Some ''- actual'')],
        indent env (indentation st) @ format env []]
     @ map (\<lambda>l. indent env (indentation st) @ format env [diffRow env escape l])
         (filter diffMarker (drop 4 (splitLines (createPatch env a e))))"
    by (simp add: writeDiff_def foldl_writeDiffLine)
  show "\<forall>l. diffMarker l \<longrightarrow>
          l \<noteq> [] \<and> (hd l = CHR ''+'' \<or> hd l = CHR ''-'' \<or> hd l = CHR '' '')
          \<and> take 1 (escapeInvisibles l) = take 1 l"
  proof (intro allI impI)
    fix l assume m: "diffMarker l"
    then have "l \<noteq> [] \<and> (hd l = CHR ''+'' \<or> hd l = CHR ''-'' \<or> hd l = CHR '' '')"
      by (cases l) (auto simp: diffMarker_def)
    with escapeInvisibles_first [OF m]
    show "l \<noteq> [] \<and> (hd l = CHR ''+'' \<or> hd l = CHR ''-'' \<or> hd l = CHR '' '')
          \<and> take 1 (escapeInvisibles l) = take 1 l"
      by simp
  qed
qed

theorem writeDiff_lines_witness:
  "out (writeDiff patchEnv initialState (''foo'' @ [CHR 0x0A] @ ''bar'')
          (''foo'' @ [CHR 0x0A] @ ''baz'') True)
     = [[], ''+ expected - actual'', [], '' foo'', ''-bar'', ''+baz'']
   \<and> diffMarker ''-bar''
   \<and> take 1 (escapeInvisibles ''-bar'') = ''-''"
proof -
  have p: "drop 4 (splitLines (createPatch patchEnv (''foo'' @ [CHR 0x0A] @ ''bar'')
                     (''foo'' @ [CHR 0x0A] @ ''baz'')))
           = [''@@ -1,2 +1,2 @@'', '' foo'', ''-bar'',
              [CHR 0x5C] @ '' No newline at end of file'', ''+baz'',
              [CHR 0x5C] @ '' No newline at end of file'', []]"
    by (simp add: patchEnv_def plainEnv_def)
  have f: "filter diffMarker
             [''@@ -1,2 +1,2 @@'', '' foo'', ''-bar'',
              [CHR 0x5C] @ '' No newline at end of file'', ''+baz'',
              [CHR 0x5C] @ '' No newline at end of file'', []]
           = ['' foo'', ''-bar'', ''+baz'']"
    by (simp add: diffMarker_def)
  have m: "diffMarker ''-bar''"
    by (simp add: diffMarker_def)
  have r: "map (\<lambda>l. indent patchEnv (indentation initialState)
                      @ format patchEnv [diffRow patchEnv True l])
             ['' foo'', ''-bar'', ''+baz'']
           = ['' foo'', ''-bar'', ''+baz'']"
    by (simp add: indent_def initialState_def patchEnv_def plainEnv_def plainFormat_def
          diffRow_def plainColor_def escapeInvisibles_def replaceChar_def)
  have h: "[indent patchEnv (indentation initialState) @ format patchEnv [],
            indent patchEnv (indentation initialState)
              @ format patchEnv [color patchEnv ''diff added'' (Some ''+ expected'') @ '' ''
                                 @ color patchEnv ''diff removed'' (Some ''- actual'')],
            indent patchEnv (indentation initialState) @ format patchEnv []]
           = [[], ''+ expected - actual'', []]"
    by (simp add: indent_def initialState_def patchEnv_def plainEnv_def plainFormat_def
          plainColor_def)
  have o: "out initialState = []"
    by (simp add: initialState_def)
  note w = writeDiff_lines [of patchEnv initialState "''foo'' @ [CHR 0x0A] @ ''bar''"
             "''foo'' @ [CHR 0x0A] @ ''baz''" True]
  from w have "out (writeDiff patchEnv initialState (''foo'' @ [CHR 0x0A] @ ''bar'')
                 (''foo'' @ [CHR 0x0A] @ ''baz'') True)
               = [[], ''+ expected - actual'', [], '' foo'', ''-bar'', ''+baz'']"
    unfolding p f r h o by simp
  moreover from w m have "take 1 (escapeInvisibles ''-bar'') = take 1 ''-bar''"
    by blast
  ultimately show ?thesis using m by simp
qed

subsection \<open>The snippet window\<close>

lemma writeRow_out:
  "writeRow env lns pos w st k =
     (if truthy (lns k)
      then st\<lparr>out := out st @
             [indent env (indentation st)
              @ format env
                  [''%s | %s'',
                   (if k + 1 = int (pos_line pos)
                    then color env ''error line pos'' (Some (pad (numToString (k + 1)) w))
                    else pad (numToString (k + 1)) w),
                   (if k + 1 = int (pos_line pos) \<and> truthyNum (pos_column pos)
                    then markColumn env (the (lns k)) (the (pos_column pos))
                    else the (lns k))]]\<rparr>
      else st)"
  by (auto simp: writeRow_def truthy_def writeLine_def split: option.splits)

lemma foldl_writeRow:
  "foldl (writeRow env lns pos w) st ks =
     st\<lparr>out := out st @
       map (\<lambda>k. indent env (indentation st)
              @ format env
                  [''%s | %s'',
                   (if k + 1 = int (pos_line pos)
                    then color env ''error line pos'' (Some (pad (numToString (k + 1)) w))
                    else pad (numToString (k + 1)) w),
                   (if k + 1 = int (pos_line pos) \<and> truthyNum (pos_column pos)
                    then markColumn env (the (lns k)) (the (pos_column pos))
                    else the (lns k))])
         (filter (\<lambda>k. truthy (lns k)) ks)\<rparr>"
  by (induction ks arbitrary: st) (simp_all add: writeRow_out)

lemma foldl_max_Max: "foldl max (w :: nat) ws = Max (set (w # ws))"
proof -
  have "foldl max w ws = fold max ws w"
    by (simp add: foldl_conv_fold max.commute)
  then show ?thesis by (simp only: Max.set_eq_fold)
qed

lemma windowObject_truthy:
  "truthy (windowObject lines l k) =
     ((k = l - 2 \<or> k = l - 1 \<or> k = l) \<and> 0 \<le> k \<and> nat k < length lines
      \<and> lines ! nat k \<noteq> [])"
  by (auto simp: windowObject_def nthOpt_def truthy_def)

lemma window_truthy:
  "filter (\<lambda>k. truthy (windowObject lines (int l) k)) (windowKeys (int l))
     = map int (windowRows lines l)"
proof -
  consider "l = 0" | "l = 1" | m where "l = Suc (Suc m)"
    by (cases l rule: nat.exhaust [case_names z s]) (auto, metis not0_implies_Suc)
  then show ?thesis
  proof cases
    case 1
    then show ?thesis
      by (simp add: windowKeys_def windowRows_def windowCandidates_def windowObject_truthy)
  next
    case 2
    then show ?thesis
      by (simp add: windowKeys_def windowRows_def windowCandidates_def windowObject_truthy)
  next
    case 3
    have n: "nat (int m) = m" "nat (1 + int m) = Suc m" "nat (2 + int m) = Suc (Suc m)"
      by simp_all
    from 3 show ?thesis
      by (simp add: windowKeys_def windowRows_def windowCandidates_def windowObject_truthy n)
  qed
qed

lemma writeFilePosition_out:
  "writeFilePosition env st ks lns pos =
     (if filter (\<lambda>k. truthy (lns k)) ks = [] then Inl ReduceOfEmptyArray
      else Inr (st\<lparr>out := out st @
        map (\<lambda>k. indent env (indentation st)
               @ format env
                   [''%s | %s'',
                    (if k + 1 = int (pos_line pos)
                     then color env ''error line pos''
                            (Some (pad (numToString (k + 1))
                               (Max (set (map (\<lambda>n. length (numToString (n + 1)))
                                            (filter (\<lambda>k. truthy (lns k)) ks))))))
                     else pad (numToString (k + 1))
                            (Max (set (map (\<lambda>n. length (numToString (n + 1)))
                                         (filter (\<lambda>k. truthy (lns k)) ks))))),
                    (if k + 1 = int (pos_line pos) \<and> truthyNum (pos_column pos)
                     then markColumn env (the (lns k)) (the (pos_column pos))
                     else the (lns k))])
          (filter (\<lambda>k. truthy (lns k)) ks)\<rparr>))"
proof (cases "map (\<lambda>n. length (numToString (n + 1))) (filter (\<lambda>k. truthy (lns k)) ks)")
  case Nil
  then show ?thesis by (simp add: writeFilePosition_def)
next
  case (Cons w ws)
  then have ne: "filter (\<lambda>k. truthy (lns k)) ks \<noteq> []" by auto
  have m: "foldl max w ws =
             Max (set (map (\<lambda>n. length (numToString (n + 1))) (filter (\<lambda>k. truthy (lns k)) ks)))"
    by (simp only: foldl_max_Max Cons)
  show ?thesis
    using ne by (simp add: writeFilePosition_def Cons foldl_writeRow m [unfolded Cons])
qed

lemma candidate_cases:
  "k \<in> set (windowCandidates l) \<Longrightarrow> int k = int l - 2 \<or> int k = int l - 1 \<or> int k = int l"
  by (auto simp: windowCandidates_def split: if_splits)

lemma windowRows_member:
  assumes "k \<in> set (windowRows lines l)"
  shows "k < length lines" and "lines ! k \<noteq> []"
    and "windowObject lines (int l) (int k) = Some (lines ! k)"
    and "Suc k = l - 1 \<or> Suc k = l \<or> Suc k = l + 1"
proof -
  from assms show a: "k < length lines" and "lines ! k \<noteq> []"
    by (simp_all add: windowRows_def)
  from assms have c: "k \<in> set (windowCandidates l)"
    by (simp add: windowRows_def)
  from candidate_cases [OF c] a
  show "windowObject lines (int l) (int k) = Some (lines ! k)"
    by (auto simp: windowObject_def nthOpt_def)
  from candidate_cases [OF c] show "Suc k = l - 1 \<or> Suc k = l \<or> Suc k = l + 1"
    by auto
qed

lemma numToString_Suc: "numToString (int k + 1) = natToString (Suc k)"
proof -
  have "nat (int k + 1) = Suc k" by simp
  then show ?thesis by (simp only: numToString_def) simp
qed

lemma rowWidth_bound:
  "k \<in> set rows \<Longrightarrow> length (natToString (Suc k)) \<le> rowWidth rows"
  by (simp add: rowWidth_def)

lemma writeFilePosition_window:
  "writeFilePosition env st (windowKeys (int (pos_line pos)))
     (windowObject lines (int (pos_line pos))) pos =
     (if windowRows lines (pos_line pos) = [] then Inl ReduceOfEmptyArray
      else Inr (st\<lparr>out := out st
        @ map (snippetRow env st lines pos (rowWidth (windowRows lines (pos_line pos))))
            (windowRows lines (pos_line pos))\<rparr>))"
proof -
  let ?rows = "windowRows lines (pos_line pos)"
  have w: "Max (set (map (\<lambda>n. length (numToString (n + 1))) (map int ?rows))) = rowWidth ?rows"
    by (simp add: rowWidth_def o_def numToString_Suc)
  have r: "map (\<lambda>k. indent env (indentation st)
               @ format env
                   [''%s | %s'',
                    (if k + 1 = int (pos_line pos)
                     then color env ''error line pos''
                            (Some (pad (numToString (k + 1)) (rowWidth ?rows)))
                     else pad (numToString (k + 1)) (rowWidth ?rows)),
                    (if k + 1 = int (pos_line pos) \<and> truthyNum (pos_column pos)
                     then markColumn env (the (windowObject lines (int (pos_line pos)) k))
                            (the (pos_column pos))
                     else the (windowObject lines (int (pos_line pos)) k))])
          (map int ?rows)
        = map (snippetRow env st lines pos (rowWidth ?rows)) ?rows"
    unfolding map_map
  proof (rule map_cong [OF refl])
    fix k assume k: "k \<in> set ?rows"
    have e: "(int k + 1 = int (pos_line pos)) = (Suc k = pos_line pos)" by auto
    show "((\<lambda>k. indent env (indentation st)
               @ format env
                   [''%s | %s'',
                    (if k + 1 = int (pos_line pos)
                     then color env ''error line pos''
                            (Some (pad (numToString (k + 1)) (rowWidth ?rows)))
                     else pad (numToString (k + 1)) (rowWidth ?rows)),
                    (if k + 1 = int (pos_line pos) \<and> truthyNum (pos_column pos)
                     then markColumn env (the (windowObject lines (int (pos_line pos)) k))
                            (the (pos_column pos))
                     else the (windowObject lines (int (pos_line pos)) k))]) \<circ> int) k
          = snippetRow env st lines pos (rowWidth ?rows) k"
      by (simp add: snippetRow_def numToString_Suc windowRows_member(3) [OF k] e)
  qed
  show ?thesis
    unfolding writeFilePosition_out window_truthy w r by simp
qed

lemma snippetRow_writeLine:
  "snippetRow env (writeLine env st args) = snippetRow env st"
  by (intro ext) (simp add: snippetRow_def)

text \<open>
  Claim C8, as the code has it. The window has a row for each of the line before
  the target, the target line and the line after it that is a line of the file and
  is not empty, in the order of the file: a neighbour beyond either end of the file
  has no row, and neither has an empty line, the target included. When there is a
  row, a blank line comes before the rows and one after, and every row starts with
  its line number, right-aligned by spaces to the width of the longest line number
  among the rows. (With no row at all the renderer raises.)
\<close>

theorem snippet_window:
  "writeStackFilePosition env st lines pos =
     (if windowRows lines (pos_line pos) = [] then Inl ReduceOfEmptyArray
      else Inr (st\<lparr>out := out st
        @ [indent env (indentation st) @ format env []]
        @ map (snippetRow env st lines pos (rowWidth (windowRows lines (pos_line pos))))
            (windowRows lines (pos_line pos))
        @ [indent env (indentation st) @ format env []]\<rparr>))
   \<and> (\<forall>k \<in> set (windowRows lines (pos_line pos)).
         k < length lines \<and> lines ! k \<noteq> []
         \<and> (Suc k = pos_line pos - 1 \<or> Suc k = pos_line pos \<or> Suc k = pos_line pos + 1)
         \<and> pad (natToString (Suc k)) (rowWidth (windowRows lines (pos_line pos)))
             = replicate (rowWidth (windowRows lines (pos_line pos))
                            - length (natToString (Suc k))) (CHR '' '')
               @ natToString (Suc k)
         \<and> length (pad (natToString (Suc k)) (rowWidth (windowRows lines (pos_line pos))))
             = rowWidth (windowRows lines (pos_line pos)))"
proof
  let ?rows = "windowRows lines (pos_line pos)"
  show "writeStackFilePosition env st lines pos =
     (if ?rows = [] then Inl ReduceOfEmptyArray
      else Inr (st\<lparr>out := out st
        @ [indent env (indentation st) @ format env []]
        @ map (snippetRow env st lines pos (rowWidth ?rows)) ?rows
        @ [indent env (indentation st) @ format env []]\<rparr>))"
    by (simp add: writeStackFilePosition_def writeFilePosition_window snippetRow_writeLine)
  show "\<forall>k \<in> set ?rows.
         k < length lines \<and> lines ! k \<noteq> []
         \<and> (Suc k = pos_line pos - 1 \<or> Suc k = pos_line pos \<or> Suc k = pos_line pos + 1)
         \<and> pad (natToString (Suc k)) (rowWidth ?rows)
             = replicate (rowWidth ?rows - length (natToString (Suc k))) (CHR '' '')
               @ natToString (Suc k)
         \<and> length (pad (natToString (Suc k)) (rowWidth ?rows)) = rowWidth ?rows"
  proof
    fix k assume k: "k \<in> set ?rows"
    have b: "length (natToString (Suc k)) \<le> rowWidth ?rows"
      by (rule rowWidth_bound [OF k])
    have p: "pad (natToString (Suc k)) (rowWidth ?rows)
             = replicate (rowWidth ?rows - length (natToString (Suc k))) (CHR '' '')
               @ natToString (Suc k)"
      by (simp only: pad_def)
    have "length (pad (natToString (Suc k)) (rowWidth ?rows))
            = (rowWidth ?rows - length (natToString (Suc k))) + length (natToString (Suc k))"
      by (simp only: p length_append length_replicate)
    with b have l: "length (pad (natToString (Suc k)) (rowWidth ?rows)) = rowWidth ?rows"
      by linarith
    from windowRows_member(1,2,4) [OF k] p l
    show "k < length lines \<and> lines ! k \<noteq> []
         \<and> (Suc k = pos_line pos - 1 \<or> Suc k = pos_line pos \<or> Suc k = pos_line pos + 1)
         \<and> pad (natToString (Suc k)) (rowWidth ?rows)
             = replicate (rowWidth ?rows - length (natToString (Suc k))) (CHR '' '')
               @ natToString (Suc k)
         \<and> length (pad (natToString (Suc k)) (rowWidth ?rows)) = rowWidth ?rows"
      by blast
  qed
qed



theorem snippet_window_witness:
  "writeStackFilePosition plainEnv initialState elevenLines
     \<lparr>pos_line = 10, pos_column = Some 1\<rparr>
     = Inr (initialState\<lparr>out := [[], '' 9 | i'', ''10 | j'', ''11 | k'', []]\<rparr>)
   \<and> windowRows elevenLines 10 = [8, 9, 10]
   \<and> pad (natToString (Suc 8)) (rowWidth (windowRows elevenLines 10)) = '' 9''"
proof -
  have rows: "windowRows elevenLines 10 = [8, 9, 10]"
    by (simp add: windowRows_def windowCandidates_def elevenLines_def)
  have width: "rowWidth [8, 9, 10] = 2"
    by (simp add: rowWidth_def natToString.simps)
  have nine: "natToString (Suc 8) = ''9''"
    by (simp add: natToString.simps digitChar_def)
  have texts: "map (snippetRow plainEnv initialState elevenLines
                      \<lparr>pos_line = 10, pos_column = Some 1\<rparr> 2) [8, 9, 10]
               = ['' 9 | i'', ''10 | j'', ''11 | k'']"
    by (simp add: snippetRow_def elevenLines_def plainEnv_def plainFormat_def plainColor_def
          indent_def initialState_def pad_def natToString.simps digitChar_def truthyNum_def
          markColumn_def charAt_def)
  have blank: "indent plainEnv (indentation initialState) @ format plainEnv [] = []"
    by (simp add: plainEnv_def plainFormat_def indent_def initialState_def)
  note w = snippet_window [of plainEnv initialState elevenLines
             "\<lparr>pos_line = 10, pos_column = Some 1\<rparr>"]
  have p: "pos_line \<lparr>pos_line = 10, pos_column = Some 1\<rparr> = 10"
    by simp
  from w [THEN conjunct1]
  have "writeStackFilePosition plainEnv initialState elevenLines
     \<lparr>pos_line = 10, pos_column = Some 1\<rparr>
     = Inr (initialState\<lparr>out := out initialState @ [[]]
              @ ['' 9 | i'', ''10 | j'', ''11 | k''] @ [[]]\<rparr>)"
    unfolding p rows width texts blank by simp
  then have "writeStackFilePosition plainEnv initialState elevenLines
     \<lparr>pos_line = 10, pos_column = Some 1\<rparr>
     = Inr (initialState\<lparr>out := [[], '' 9 | i'', ''10 | j'', ''11 | k'', []]\<rparr>)"
    by (simp add: initialState_def)
  moreover from w [THEN conjunct2]
  have "pad (natToString (Suc 8)) (rowWidth (windowRows elevenLines 10))
     = replicate (rowWidth (windowRows elevenLines 10) - length (natToString (Suc 8))) (CHR '' '')
       @ natToString (Suc 8)"
    unfolding p rows by simp
  then have "pad (natToString (Suc 8)) (rowWidth (windowRows elevenLines 10)) = '' 9''"
    by (simp only: rows width nine) simp
  ultimately show ?thesis using rows by simp
qed

text \<open>
  The claim as written fails where a line of the window is empty: for the file of the
  three lines \<open>a\<close>, the empty line and \<open>c\<close>, and the target line 2, the window has
  the rows of lines 1 and 3 only. The target line is not at a file boundary and has
  no row.
\<close>

theorem empty_target_line_counterexample:
  "writeStackFilePosition plainEnv initialState [''a'', [], ''c'']
     \<lparr>pos_line = 2, pos_column = None\<rparr>
   = Inr (initialState\<lparr>out := [[], ''1 | a'', ''3 | c'', []]\<rparr>)"
  by (simp add: writeStackFilePosition_def writeFilePosition_def windowKeys_def
        windowObject_def nthOpt_def truthy_def writeRow_def writeLine_def plainEnv_def
        plainFormat_def plainColor_def indent_def initialState_def pad_def numToString_def
        natToString.simps digitChar_def)

subsection \<open>Which frames the walk renders\<close>

lemma stackWalk_shift:
  "stackWalk env opts files (p # ps) ls (Suc i) b t st = stackWalk env opts files ps ls i b t st"
  by (induction ls arbitrary: i b t st) (auto simp: Let_def split: option.splits sum.splits)

lemma frameRendered_Suc:
  "frameRendered env opts files b (p # ps) (Suc j) =
     frameRendered env opts files (b \<and> \<not> projectFrame files p) ps j"
proof -
  have "(\<forall>k<Suc j. \<not> projectFrame files ((p # ps) ! k)) =
          (\<not> projectFrame files p \<and> (\<forall>k<j. \<not> projectFrame files (ps ! k)))"
    by (auto simp: less_Suc_eq_0_disj)
  then show ?thesis
    by (auto simp: frameRendered_def split: option.splits)
qed

lemma frameRendered_0:
  "getFileName p = Some f \<Longrightarrow>
   frameRendered env opts files b (p # ps) 0 =
     (\<not> includesStr f ''node_modules'' \<and> (f \<in> set files \<or> b)
      \<and> \<not> (truthy (stackExclude opts) \<and> minimatch env f (the (stackExclude opts))))"
  by (simp add: frameRendered_def)

lemma rendered_indices_Cons:
  "map (\<lambda>j. ((l # ls) ! j, (p # ps) ! j))
     (filter (frameRendered env opts files b (p # ps)) [0..<Suc (length ls)])
   = (if frameRendered env opts files b (p # ps) 0 then [(l, p)] else [])
     @ map (\<lambda>j. (ls ! j, ps ! j))
         (filter (frameRendered env opts files (b \<and> \<not> projectFrame files p) ps)
            [0..<length ls])"
proof -
  have u: "[0..<Suc (length ls)] = 0 # map Suc [0..<length ls]"
    by (simp only: upt_conv_Cons [of 0 "Suc (length ls)"] map_Suc_upt)
  show ?thesis
    unfolding u by (simp add: filter_map o_def frameRendered_Suc)
qed

lemma stackWalk_rendered:
  assumes "hideNodeModulesStack opts"
    and "length ls \<le> length ps"
    and "\<forall>j<length ls. getFileName (ps ! j) \<noteq> None"
  shows "stackWalk env opts files ps ls 0 b t st =
           writeStackLines env opts
             (map (\<lambda>j. (ls ! j, ps ! j))
                (filter (frameRendered env opts files b ps) [0..<length ls])) st"
  using assms(2,3)
proof (induction ls arbitrary: ps b t st)
  case Nil
  then show ?case by simp
next
  case (Cons l ls)
  then obtain p ps' where ps: "ps = p # ps'" by (cases ps) auto
  from Cons.prems ps obtain f where f: "getFileName p = Some f" by fastforce
  from Cons.prems ps have len: "length ls \<le> length ps'" by simp
  from Cons.prems ps have names: "\<forall>j<length ls. getFileName (ps' ! j) \<noteq> None" by fastforce
  note IH = Cons.IH [OF len names]
  note r0 = frameRendered_0 [OF f, of env opts files b ps']
  show ?case
  proof (cases "includesStr f ''node_modules''")
    case True
    then have np: "\<not> projectFrame files p"
      by (simp add: projectFrame_def f)
    show ?thesis
      unfolding ps length_Cons rendered_indices_Cons
      using True np assms(1) by (simp add: r0 f stackWalk_shift IH)
  next
    case False
    show ?thesis
    proof (cases "f \<in> set files")
      case True
      with False have pp: "projectFrame files p"
        by (simp add: projectFrame_def f)
      show ?thesis
        unfolding ps length_Cons rendered_indices_Cons
        using False True pp assms(1)
        by (auto simp: r0 f stackWalk_shift IH Let_def split: sum.splits)
    next
      case nf: False
      with False have pp: "\<not> projectFrame files p"
        by (simp add: projectFrame_def f)
      show ?thesis
        unfolding ps length_Cons rendered_indices_Cons
        using False nf pp assms(1)
        by (auto simp: r0 f stackWalk_shift IH Let_def split: sum.splits)
    qed
  qed
qed


lemma scenario_rendered:
  "filter (frameRendered plainEnv defaultOptions [''project/a.js'', ''project/c.js''] True
             scenarioFrames) [0..<length scenarioLines] = [0, 2]"
proof -
  have u: "[0..<length scenarioLines] = [0, 1, 2]"
    by (simp add: scenarioLines_def upt_rec)
  have r: "frameRendered plainEnv defaultOptions [''project/a.js'', ''project/c.js''] True
             scenarioFrames 0"
    "\<not> frameRendered plainEnv defaultOptions [''project/a.js'', ''project/c.js''] True
             scenarioFrames 1"
    "frameRendered plainEnv defaultOptions [''project/a.js'', ''project/c.js''] True
             scenarioFrames 2"
    by (simp_all add: frameRendered_def scenarioFrames_def defaultOptions_def truthy_def)
  show ?thesis unfolding u using r by simp
qed

text \<open>
  The claim as written fails on the stack whose second frame is in a library outside
  \<^verbatim>\<open>node_modules\<close>: that frame is neither a project file nor before the project
  frames and is suppressed, and the frame after it, a project file, is rendered.
\<close>

theorem project_frame_after_suppressed_counterexample:
  "\<not> includesStr ''lib/x.js'' ''node_modules''
   \<and> ''lib/x.js'' \<notin> set [''project/a.js'', ''project/c.js'']
   \<and> stackWalk plainEnv defaultOptions [''project/a.js'', ''project/c.js''] libraryFrames
       libraryLines 0 True True initialState
     = Inr (initialState\<lparr>out := [''at project/a.js:10'', ''at project/c.js:3''],
                           io := [ReadFile ''project/a.js'', ReadFile ''project/c.js'']\<rparr>)"
  by (simp add: libraryFrames_def libraryLines_def defaultOptions_def truthy_def
        writeStackLine_def readStackFile_def writeLine_def Let_def plainEnv_def
        initialState_def indent_def plainFormat_def plainColor_def)

subsection \<open>Stack lines and frames\<close>

lemma bind_no_frame_error:
  assumes "r \<noteq> Inl UndefinedFrame" and "\<And>s. f s \<noteq> Inl UndefinedFrame"
  shows "(case r of Inl e \<Rightarrow> Inl e | Inr s \<Rightarrow> f s) \<noteq> Inl UndefinedFrame"
  using assms by (cases r) auto

lemma writeStackFilePosition_no_frame_error:
  "writeStackFilePosition env st lines pos \<noteq> Inl UndefinedFrame"
  unfolding writeStackFilePosition_def
  by (rule bind_no_frame_error) (simp_all add: writeFilePosition_def split: list.splits)

lemma resolveSourceMap_no_frame_error:
  "resolveSourceMap env st fileName sm \<noteq> Inl UndefinedFrame"
  by (simp add: resolveSourceMap_def parseInlineSourceMap_def
        split: sum.splits option.splits prod.splits)

lemma writeOriginalSource_no_frame_error:
  "writeOriginalSource env st smc pos \<noteq> Inl UndefinedFrame"
  unfolding writeOriginalSource_def Let_def
  by (simp add: bind_no_frame_error writeStackFilePosition_no_frame_error)

lemma writeStackLine_no_frame_error:
  "writeStackLine env opts st l fileName lineNumber columnNumber \<noteq> Inl UndefinedFrame"
proof (cases lineNumber)
  case None
  then show ?thesis by (simp add: writeStackLine_def)
next
  case (Some n)
  show ?thesis
  proof (cases "filesCache (readStackFile env
                   (writeLine env st [color env ''error stack'' (Some l)]) fileName) fileName")
    case None
    with Some show ?thesis by (simp add: writeStackLine_def Let_def)
  next
    case (Some lines)
    have s: "(case resolveSourceMap env s fileName v of
               Inl e \<Rightarrow> Inl e
             | Inr (None, st4) \<Rightarrow> Inr st4
             | Inr (Some smc, st4) \<Rightarrow> writeOriginalSource env st4 smc p)
             \<noteq> Inl UndefinedFrame" for s v p
      using resolveSourceMap_no_frame_error [of env s fileName v]
      by (auto simp: writeOriginalSource_no_frame_error split: sum.splits option.splits prod.splits)
    from \<open>lineNumber = Some n\<close> Some show ?thesis
      unfolding writeStackLine_def Let_def
      by (simp add: bind_no_frame_error writeStackFilePosition_no_frame_error s)
  qed
qed

lemma stackWalk_in_bounds:
  "length ls + i \<le> length ps \<Longrightarrow> stackWalk env opts files ps ls i b t st \<noteq> Inl UndefinedFrame"
proof (induction ls arbitrary: i b t st)
  case Nil
  then show ?case by simp
next
  case (Cons l ls)
  then have i: "\<not> length ps \<le> i" and n: "length ls + Suc i \<le> length ps"
    by simp_all
  note IH = Cons.IH [OF n]
  show ?case
    by (simp add: i Let_def IH bind_no_frame_error writeStackLine_no_frame_error
          split: option.splits)
qed

lemma stackWalk_returns:
  "stackWalk env opts files ps ls i b t st = Inr st' \<Longrightarrow> ls = [] \<or> length ls + i \<le> length ps"
proof (induction ls arbitrary: i b t st)
  case Nil
  then show ?case by simp
next
  case (Cons l ls)
  from Cons.prems have i: "i < length ps"
    by (auto split: if_splits)
  from Cons.prems i obtain b' t' s' where
    "stackWalk env opts files ps ls (Suc i) b' t' s' = Inr st'"
    by (auto simp: Let_def split: if_splits option.splits sum.splits)
  from Cons.IH [OF this] i show ?case by auto
qed

text \<open>
  The number of stack lines depends on the message, the frames on the stack text
  alone: the two error objects below have the same stack text, hence the same
  frames, and the message of the first is empty, so that its header line stays among
  the stack lines. They have two stack lines and one, and no resolver gives both as
  many frames as lines.
\<close>

lemma frame_count_depends_on_message:
  "stackLines (stack emptyMessageError) (message emptyMessageError)
     = [''Error'', ''at f (/p/a.js:1:1)'']
   \<and> stackLines (stack headerMessageError) (message headerMessageError)
     = [''at f (/p/a.js:1:1)'']
   \<and> (\<forall>env :: (string, nat) env.
         \<not> (length (resolve env emptyMessageError)
               = length (stackLines (stack emptyMessageError) (message emptyMessageError))
             \<and> length (resolve env headerMessageError)
               = length (stackLines (stack headerMessageError) (message headerMessageError))))"
proof -
  have a: "stackLines (stack emptyMessageError) (message emptyMessageError)
             = [''Error'', ''at f (/p/a.js:1:1)'']"
    by (simp add: emptyMessageError_def headerStack_def stackLines_def indexOf_def
          substrFrom_def trim_def isSpace_def)
  have b: "stackLines (stack headerMessageError) (message headerMessageError)
             = [''at f (/p/a.js:1:1)'']"
    by (simp add: headerMessageError_def headerStack_def stackLines_def indexOf_def
          substrFrom_def trim_def isSpace_def)
  have c: "resolve env emptyMessageError = resolve env headerMessageError"
    for env :: "(string, nat) env"
    by (simp add: resolve_def emptyMessageError_def headerMessageError_def)
  show ?thesis
    unfolding a b using c by simp
qed

subsection \<open>The source-map cache\<close>

lemma validMap_marker:
  "linesContainSourceMap (splitLines validMapFile) = Some validMapUri"
  by (simp add: linesContainSourceMap_def numeral_2_eq_2 trim_def isSpace_def
        sourceMapComment_def validMapFile_def validMapUri_def)

lemma validMapUri_data: "take 5 validMapUri = ''data:''" "validMapUri \<noteq> []"
  by (simp_all add: validMapUri_def)

lemma validMapEnv_fields:
  "readFileSync validMapEnv ''/p/a.js'' = Some validMapFile"
  "dataUriToBuffer validMapEnv validMapUri = Some validMapJson"
  "newConsumer validMapEnv validMapJson = Some validMapJson"
  "originalPositionFor validMapEnv validMapJson \<lparr>pos_line = 1, pos_column = c\<rparr>
     = \<lparr>source = Some ''a.ts'', orig_line = 1, orig_column = Some 0\<rparr>"
  "sourceContentFor validMapEnv validMapJson ''a.ts'' = Some ''let x;''"
  "color validMapEnv = plainColor"
  "format validMapEnv = plainFormat"
  "configIndentation validMapEnv = 2"
  by (simp_all add: validMapEnv_def plainEnv_def)

lemma sourceMapOptions_fields:
  "showSourceMapFiles sourceMapOptions" "\<not> showJavascriptFiles sourceMapOptions"
  by (simp_all add: sourceMapOptions_def defaultOptions_def)

lemma numToString_1: "numToString 1 = ''1''"
  by (simp add: numToString_def natToString.simps digitChar_def)

lemma validMap_snippet:
  "writeStackFilePosition validMapEnv s [''let x;''] \<lparr>pos_line = Suc 0, pos_column = Some 0\<rparr>
     = Inr (s\<lparr>out := out s
              @ [indent validMapEnv (indentation s),
                 indent validMapEnv (indentation s) @ ''1 | let x;'',
                 indent validMapEnv (indentation s)]\<rparr>)"
  by (simp add: writeStackFilePosition_def writeFilePosition_def windowKeys_def
        windowObject_def nthOpt_def truthy_def truthyNum_def writeRow_def writeLine_def
        validMapEnv_fields plainFormat_def plainColor_def pad_def numToString_1)

lemma validMap_original:
  "writeOriginalSource validMapEnv st validMapJson \<lparr>pos_line = Suc 0, pos_column = c\<rparr>
     = Inr (st\<lparr>out := out st
              @ [indent validMapEnv (Suc (indentation st)) @ ''at a.ts:1'',
                 indent validMapEnv (Suc (indentation st)),
                 indent validMapEnv (Suc (indentation st)) @ ''1 | let x;'',
                 indent validMapEnv (Suc (indentation st))]\<rparr>)"
proof -
  have p: "originalPositionFor validMapEnv validMapJson \<lparr>pos_line = Suc 0, pos_column = c\<rparr>
             = \<lparr>source = Some ''a.ts'', orig_line = Suc 0, orig_column = Some 0\<rparr>"
    using validMapEnv_fields(4) [of c] by simp
  show ?thesis
    unfolding writeOriginalSource_def Let_def p
    by (simp add: validMapEnv_fields truthy_def truthyNum_def validMap_snippet writeLine_def
          plainFormat_def plainColor_def numToString_1)
qed

text \<open>
  Claim C2 at a failing input: a file that ends in a valid inline source map, and
  two calls of \<^verbatim>\<open>writeStackLine\<close> for it, as for two frames in that file. The first
  call builds the consumer and stores it in the cache. The second call reads the
  cached consumer and, since it is not \<^verbatim>\<open>null\<close>, builds a consumer again: the
  trace has two constructions for the one path.
\<close>

theorem cached_consumer_parsed_again:
  "(case writeStackLine validMapEnv sourceMapOptions initialState
           ''at f (/p/a.js:1:5)'' ''/p/a.js'' (Some 1) (Some 5) of
      Inl e \<Rightarrow> None
    | Inr st1 \<Rightarrow>
        (case writeStackLine validMapEnv sourceMapOptions st1
                ''at g (/p/a.js:1:1)'' ''/p/a.js'' (Some 1) (Some 1) of
           Inl e \<Rightarrow> None
         | Inr st2 \<Rightarrow> Some (sourceMapCache st1 ''/p/a.js'', io st1, io st2)))
   = Some (Some (Some validMapJson),
           [ReadFile ''/p/a.js'', NewConsumer validMapJson],
           [ReadFile ''/p/a.js'', NewConsumer validMapJson, NewConsumer validMapJson])"
  by (simp add: writeStackLine_def readStackFile_def Let_def validMapEnv_fields
        sourceMapOptions_fields validMap_marker validMapUri_data truthy_def truthyNum_def
        resolveSourceMap_def parseInlineSourceMap_def validMap_original initialState_def)

subsection \<open>The stack lines of an error with an empty message\<close>

lemma headerEnv_fields:
  "readFileSync headerEnv = (\<lambda>p. None)"
  "minimatch headerEnv = (\<lambda>f pat. False)"
  "resolve headerEnv emptyMessageError =
     [\<lparr>getFileName = Some ''/p/a.js'', getLineNumber = Some 1, getColumnNumber = Some 1\<rparr>]"
  by (simp_all add: headerEnv_def plainEnv_def resolve_def emptyMessageError_def)

text \<open>
  Claim C6 at a failing input: the error \<^verbatim>\<open>new Error()\<close>, whose message is empty
  and whose stack text is the header line \<^verbatim>\<open>Error\<close> and one frame line. The message
  is found at position 0 and nothing is stripped, so the header stays among the
  stack lines: there are two of them and one frame. The walk pairs the header line
  with the frame of the frame line, and the lookup of a frame for the second line
  raises; the report ends there, before the failure that follows.
\<close>

theorem empty_message_misaligns_frames:
  "stackLines (stack emptyMessageError) (message emptyMessageError)
     = [''Error'', ''at f (/p/a.js:1:1)'']
   \<and> resolve headerEnv emptyMessageError
     = [\<lparr>getFileName = Some ''/p/a.js'', getLineNumber = Some 1, getColumnNumber = Some 1\<rparr>]
   \<and> writeStackLine headerEnv defaultOptions initialState ''Error'' ''/p/a.js'' (Some 1) (Some 1)
     = Inr (initialState\<lparr>out := [''Error''], io := [ReadFile ''/p/a.js'']\<rparr>)
   \<and> writeFailures headerEnv defaultOptions [''/p/a.js''] initialState
       [emptyMessageTest, plainTest] = Inl UndefinedFrame"
proof -
  have a: "stackLines (stack emptyMessageError) (message emptyMessageError)
             = [''Error'', ''at f (/p/a.js:1:1)'']"
    by (simp add: emptyMessageError_def headerStack_def stackLines_def indexOf_def
          substrFrom_def trim_def isSpace_def)
  have t: "\<not> timedOut emptyMessageTest" "err emptyMessageTest = emptyMessageError"
    by (simp_all add: emptyMessageTest_def)
  have f: "writeFailure headerEnv defaultOptions [''/p/a.js''] n st emptyMessageTest 0
             = Inl UndefinedFrame"
    if "filesCache st ''/p/a.js'' = None" for st :: "string state" and n
    using that
    by (simp add: writeFailure_def t a headerEnv_fields writeStackLine_unreadable
          defaultOptions_fields truthy_def)
  have w: "writeStackLine headerEnv defaultOptions initialState ''Error'' ''/p/a.js''
             (Some 1) (Some 1)
     = Inr (initialState\<lparr>out := [''Error''], io := [ReadFile ''/p/a.js'']\<rparr>)"
    by (simp add: writeStackLine_def readStackFile_def writeLine_def Let_def headerEnv_def
          plainEnv_def initialState_def indent_def plainFormat_def plainColor_def)
  have c: "filesCache initialState = Map.empty"
    by (simp add: initialState_def)
  have r: "writeFailures headerEnv defaultOptions [''/p/a.js''] initialState
       [emptyMessageTest, plainTest] = Inl UndefinedFrame"
    by (simp add: writeFailures_def Let_def f c defaultOptions_fields)
  from a headerEnv_fields(3) w r show ?thesis by (simp only:) 
qed

subsection \<open>The frames of a walk that returns\<close>

lemma writeStackFilePosition_appends:
  assumes "writeStackFilePosition env st lines pos = Inr st'"
  shows "\<exists>g. out st' = out st @ g" and "indentation st' = indentation st"
  using assms
  by (auto simp: writeStackFilePosition_def writeFilePosition_out split: if_splits)

lemma writeStackFilePosition_both:
  "writeStackFilePosition env st lines pos = Inr st' \<Longrightarrow>
   (\<exists>g. out st' = out st @ g) \<and> indentation st' = indentation st"
  by (simp add: writeStackFilePosition_appends)

lemma resolveSourceMap_keeps:
  assumes "resolveSourceMap env st fileName sm = Inr (r, st')"
  shows "out st' = out st" and "indentation st' = indentation st"
  using assms
  by (auto simp: resolveSourceMap_def split: if_splits sum.splits option.splits prod.splits)

lemma writeOriginalSource_appends:
  assumes "writeOriginalSource env st smc pos = Inr st'"
  shows "\<exists>g. out st' = out st @ g" and "indentation st' = indentation st"
proof -
  have "(\<exists>g. out st' = out st @ g) \<and> indentation st' = indentation st"
    using assms unfolding writeOriginalSource_def Let_def
    by (auto split: if_splits sum.splits dest!: writeStackFilePosition_both)
  then show "\<exists>g. out st' = out st @ g" and "indentation st' = indentation st"
    by simp_all
qed

lemma readStackFile_keeps [simp]:
  "out (readStackFile env st fileName) = out st"
  "indentation (readStackFile env st fileName) = indentation st"
  by (simp_all add: readStackFile_def split: option.splits)

lemma writeStackLine_appends:
  assumes "writeStackLine env opts st l fileName lineNumber columnNumber = Inr st'"
  shows "\<exists>g. out st' = out st @ stackTextLine env st l # g"
    and "indentation st' = indentation st"
proof -
  let ?st1 = "writeLine env st [color env ''error stack'' (Some l)]"
  have o1: "out ?st1 = out st @ [stackTextLine env st l]"
    by (simp add: stackTextLine_def)
  have "(\<exists>g. out st' = out st @ stackTextLine env st l # g) \<and> indentation st' = indentation st"
  proof (cases lineNumber)
    case None
    with assms have "st' = ?st1" by (simp add: writeStackLine_def)
    with o1 show ?thesis by simp
  next
    case (Some n)
    let ?st2 = "readStackFile env ?st1 fileName"
    let ?pos = "\<lparr>pos_line = n, pos_column = (if truthyNum columnNumber then columnNumber else None)\<rparr>"
    have o2: "out ?st2 = out st @ [stackTextLine env st l]" "indentation ?st2 = indentation st"
      using o1 by simp_all
    show ?thesis
    proof (cases "filesCache ?st2 fileName")
      case None
      with assms Some have "st' = ?st2" by (simp add: writeStackLine_def Let_def)
      with o2 show ?thesis by simp
    next
      case (Some lines)
      let ?sm = "linesContainSourceMap lines"
      from assms \<open>lineNumber = Some n\<close> Some obtain st3 where
        r3: "(if showJavascriptFiles opts \<or> \<not> truthy ?sm
              then writeStackFilePosition env ?st2 lines ?pos else Inr ?st2) = Inr st3"
        and rest: "(if truthy ?sm \<and> showSourceMapFiles opts then
                      (case resolveSourceMap env st3 fileName (the ?sm) of
                         Inl e \<Rightarrow> Inl e
                       | Inr (None, st4) \<Rightarrow> Inr st4
                       | Inr (Some smc, st4) \<Rightarrow> writeOriginalSource env st4 smc ?pos)
                    else Inr st3) = Inr st'"
        by (auto simp: writeStackLine_def Let_def split: sum.splits)
      from r3 o2 have o3: "\<exists>g. out st3 = out st @ stackTextLine env st l # g"
        and i3: "indentation st3 = indentation st"
        using writeStackFilePosition_appends [of env ?st2 lines ?pos st3]
        by (auto split: if_splits)
      show ?thesis
      proof (cases "truthy ?sm \<and> showSourceMapFiles opts")
        case False
        with rest have "st' = st3" by auto
        with o3 i3 show ?thesis by simp
      next
        case True
        with rest obtain r st4 where
          r4: "resolveSourceMap env st3 fileName (the ?sm) = Inr (r, st4)"
          and r5: "(case r of None \<Rightarrow> Inr st4
                    | Some smc \<Rightarrow> writeOriginalSource env st4 smc ?pos) = Inr st'"
          by (auto split: sum.splits prod.splits option.splits)
        from resolveSourceMap_keeps [OF r4] o3 i3
        have o4: "\<exists>g. out st4 = out st @ stackTextLine env st l # g"
          and i4: "indentation st4 = indentation st"
          by auto
        show ?thesis
        proof (cases r)
          case None
          with r5 have "st' = st4" by simp
          with o4 i4 show ?thesis by simp
        next
          case (Some smc)
          with r5 have "writeOriginalSource env st4 smc ?pos = Inr st'" by simp
          from writeOriginalSource_appends [OF this] o4 i4 show ?thesis
            by auto
        qed
      qed
    qed
  qed
  then show "\<exists>g. out st' = out st @ stackTextLine env st l # g"
    and "indentation st' = indentation st"
    by simp_all
qed

lemma stackTextLine_indentation:
  "indentation s = indentation st \<Longrightarrow> stackTextLine env s = stackTextLine env st"
  by (intro ext) (simp add: stackTextLine_def)

lemma writeStackLines_groups:
  assumes "writeStackLines env opts pairs st = Inr st'"
  shows "\<exists>groups. length groups = length pairs
           \<and> out st' = out st @ concat groups
           \<and> (\<forall>k<length pairs. \<exists>g. groups ! k = stackTextLine env st (fst (pairs ! k)) # g)"
  using assms
proof (induction pairs arbitrary: st)
  case Nil
  then show ?case by simp
next
  case (Cons p pairs)
  obtain l fr where p: "p = (l, fr)" by (cases p)
  from Cons.prems p obtain s where
    s: "writeStackLine env opts st l (the (getFileName fr)) (getLineNumber fr)
          (getColumnNumber fr) = Inr s"
    and r: "writeStackLines env opts pairs s = Inr st'"
    by (auto split: sum.splits)
  from writeStackLine_appends [OF s] obtain g where
    g: "out s = out st @ stackTextLine env st l # g" and i: "indentation s = indentation st"
    by auto
  from Cons.IH [OF r] obtain groups where
    n: "length groups = length pairs"
    and o: "out st' = out s @ concat groups"
    and h: "\<forall>k<length pairs. \<exists>g. groups ! k = stackTextLine env s (fst (pairs ! k)) # g"
    by auto
  let ?groups = "(stackTextLine env st l # g) # groups"
  have "length ?groups = length (p # pairs)" using n by simp
  moreover have "out st' = out st @ concat ?groups" using o g by simp
  moreover have "\<forall>k<length (p # pairs).
                   \<exists>g. ?groups ! k = stackTextLine env st (fst ((p # pairs) ! k)) # g"
  proof (intro allI impI)
    fix k assume k: "k < length (p # pairs)"
    show "\<exists>g. ?groups ! k = stackTextLine env st (fst ((p # pairs) ! k)) # g"
    proof (cases k)
      case 0
      then show ?thesis by (simp add: p)
    next
      case (Suc j)
      with k h show ?thesis
        by (simp add: stackTextLine_indentation [OF i])
    qed
  qed
  ultimately show ?case by blast
qed


text \<open>
  Claim C4, as the code has it. With \<^verbatim>\<open>hideNodeModulesStack\<close> true, and when every
  stack line has a frame with a file name, the walk calls \<^verbatim>\<open>writeStackLine\<close>, in
  stack order, for the frames that are outside \<^verbatim>\<open>node_modules\<close>, that are a project
  file or have no project frame before them, and that the exclusion pattern does not
  match, and for no other frame; it ends at the first call that raises. The decision
  is taken frame by frame: a frame that is neither a project file nor before the
  project frames is suppressed, and a project frame after it meets the condition
  again. In a walk that returns, a frame is rendered exactly when it meets the
  condition: what the walk writes is one group of lines for each such frame, in
  stack order, and each group begins with the raw stack-text line of its frame.
\<close>

theorem walk_renders_project_frames:
  assumes "hideNodeModulesStack opts"
    and "length ls \<le> length ps"
    and "\<forall>j<length ls. getFileName (ps ! j) \<noteq> None"
  shows "stackWalk env opts files ps ls 0 True True st =
           writeStackLines env opts
             (map (\<lambda>j. (ls ! j, ps ! j))
                (filter (frameRendered env opts files True ps) [0..<length ls])) st
         \<and> (\<forall>j. projectFrame files (ps ! j)
                \<and> \<not> (truthy (stackExclude opts)
                       \<and> minimatch env (the (getFileName (ps ! j))) (the (stackExclude opts)))
                \<longrightarrow> frameRendered env opts files True ps j)
         \<and> (stackWalk env opts files ps ls 0 True True st = Inr st' \<longrightarrow>
              (\<exists>groups.
                 length groups
                   = length (filter (frameRendered env opts files True ps) [0..<length ls])
                 \<and> out st' = out st @ concat groups
                 \<and> (\<forall>k<length (filter (frameRendered env opts files True ps) [0..<length ls]).
                       \<exists>g. groups ! k
                             = stackTextLine env st
                                 (ls ! (filter (frameRendered env opts files True ps)
                                          [0..<length ls] ! k)) # g)))"
proof (intro conjI)
  let ?sel = "filter (frameRendered env opts files True ps) [0..<length ls]"
  show eq: "stackWalk env opts files ps ls 0 True True st =
           writeStackLines env opts (map (\<lambda>j. (ls ! j, ps ! j)) ?sel) st"
    using assms by (rule stackWalk_rendered)
  show "\<forall>j. projectFrame files (ps ! j)
                \<and> \<not> (truthy (stackExclude opts)
                       \<and> minimatch env (the (getFileName (ps ! j))) (the (stackExclude opts)))
                \<longrightarrow> frameRendered env opts files True ps j"
    by (auto simp: projectFrame_def frameRendered_def split: option.splits)
  show "stackWalk env opts files ps ls 0 True True st = Inr st' \<longrightarrow>
          (\<exists>groups. length groups = length ?sel
             \<and> out st' = out st @ concat groups
             \<and> (\<forall>k<length ?sel.
                   \<exists>g. groups ! k = stackTextLine env st (ls ! (?sel ! k)) # g))"
  proof
    assume "stackWalk env opts files ps ls 0 True True st = Inr st'"
    with eq have "writeStackLines env opts (map (\<lambda>j. (ls ! j, ps ! j)) ?sel) st = Inr st'"
      by simp
    from writeStackLines_groups [OF this]
    show "\<exists>groups. length groups = length ?sel
             \<and> out st' = out st @ concat groups
             \<and> (\<forall>k<length ?sel.
                   \<exists>g. groups ! k = stackTextLine env st (ls ! (?sel ! k)) # g)"
      by simp
  qed
qed

theorem walk_renders_project_frames_witness:
  "stackWalk plainEnv defaultOptions [''project/a.js'', ''project/c.js''] scenarioFrames
     scenarioLines 0 True True initialState
   = Inr (initialState\<lparr>out := [''at project/a.js:10'', ''at project/c.js:3''],
                         io := [ReadFile ''project/a.js'', ReadFile ''project/c.js'']\<rparr>)
   \<and> filter (frameRendered plainEnv defaultOptions [''project/a.js'', ''project/c.js''] True
               scenarioFrames) [0..<length scenarioLines] = [0, 2]
   \<and> (\<exists>groups. length groups = 2
          \<and> [''at project/a.js:10'', ''at project/c.js:3''] = concat groups
          \<and> (\<exists>g. groups ! 0 = ''at project/a.js:10'' # g)
          \<and> (\<exists>g. groups ! 1 = ''at project/c.js:3'' # g))"
proof -
  let ?final = "initialState\<lparr>out := [''at project/a.js:10'', ''at project/c.js:3''],
                         io := [ReadFile ''project/a.js'', ReadFile ''project/c.js'']\<rparr>"
  have h: "hideNodeModulesStack defaultOptions"
    by (simp add: defaultOptions_def)
  have l: "length scenarioLines \<le> length scenarioFrames"
    by (simp add: scenarioLines_def scenarioFrames_def)
  have n: "\<forall>j<length scenarioLines. getFileName (scenarioFrames ! j) \<noteq> None"
    by (simp add: scenarioLines_def scenarioFrames_def less_Suc_eq numeral_3_eq_3)
  have m: "map (\<lambda>j. (scenarioLines ! j, scenarioFrames ! j)) [0, 2]
           = [(''at project/a.js:10'',
               \<lparr>getFileName = Some ''project/a.js'', getLineNumber = Some 10,
                getColumnNumber = None\<rparr>),
              (''at project/c.js:3'',
               \<lparr>getFileName = Some ''project/c.js'', getLineNumber = Some 3,
                getColumnNumber = None\<rparr>)]"
    by (simp add: scenarioLines_def scenarioFrames_def)
  have w: "writeStackLines plainEnv defaultOptions
             [(''at project/a.js:10'',
               \<lparr>getFileName = Some ''project/a.js'', getLineNumber = Some 10,
                getColumnNumber = None\<rparr>),
              (''at project/c.js:3'',
               \<lparr>getFileName = Some ''project/c.js'', getLineNumber = Some 3,
                getColumnNumber = None\<rparr>)] initialState
           = Inr ?final"
    by (simp add: writeStackLine_def readStackFile_def writeLine_def Let_def plainEnv_def
          initialState_def indent_def plainFormat_def plainColor_def)
  note t = walk_renders_project_frames [OF h l n, of plainEnv "[''project/a.js'', ''project/c.js'']"
         initialState ?final]
  from t [THEN conjunct1]
  have a: "stackWalk plainEnv defaultOptions [''project/a.js'', ''project/c.js''] scenarioFrames
     scenarioLines 0 True True initialState = Inr ?final"
    unfolding scenario_rendered m w .
  have s0: "stackTextLine plainEnv initialState (scenarioLines ! 0) = ''at project/a.js:10''"
    and s2: "stackTextLine plainEnv initialState (scenarioLines ! 2) = ''at project/c.js:3''"
    by (simp_all add: stackTextLine_def scenarioLines_def indent_def plainEnv_def
          initialState_def plainFormat_def plainColor_def)
  from t [THEN conjunct2, THEN conjunct2] a
  obtain groups where
    g: "length groups = length [0::nat, 2]"
       "out ?final = out initialState @ concat groups"
       "\<forall>k<length [0::nat, 2].
          \<exists>g. groups ! k = stackTextLine plainEnv initialState (scenarioLines ! ([0, 2] ! k)) # g"
    unfolding scenario_rendered by blast
  from g(3) have "\<exists>g. groups ! 0 = stackTextLine plainEnv initialState (scenarioLines ! 0) # g"
    and "\<exists>g. groups ! 1 = stackTextLine plainEnv initialState (scenarioLines ! 2) # g"
    by (auto simp: less_Suc_eq numeral_2_eq_2)
  then have g0: "\<exists>g. groups ! 0 = ''at project/a.js:10'' # g"
    and g1: "\<exists>g. groups ! 1 = ''at project/c.js:3'' # g"
    by (simp_all only: s0 s2)
  from g(1) have gl: "length groups = 2" by simp
  from g(2) have gc: "[''at project/a.js:10'', ''at project/c.js:3''] = concat groups"
    by (simp add: initialState_def)
  from a scenario_rendered gl gc g0 g1 show ?thesis by blast
qed

end
